theory Spec2Isabelle
  imports Main "HOL-Library.Word"
begin

unbundle bit_operations_syntax

section \<open>Data model\<close>

text \<open>
  The resource types live in package \<open>api/v1\<close> and the client types in
  \<open>newrelic-client-go\<close>; the controllers only read, copy and compare them. Each record
  below carries the fields the controllers touch; the remaining declared content of a
  specification (terms, query, configuration, ...) is only ever copied and compared as
  a whole and is kept in one \<open>Body\<close> field.
\<close>

text \<open>A Go \<open>error\<close> value, identified with the text of \<open>err.Error()\<close>.\<close>

datatype error = Error string

fun errorText :: "error \<Rightarrow> string" where
  "errorText (Error msg) = msg"

text \<open>\<open>types.NamespacedName\<close>: namespace first, then name.\<close>

type_synonym namespaced_name = "string \<times> string"

record api_key_secret =
  aks_Name :: string
  aks_Namespace :: string
  aks_KeyName :: string

text \<open>The zero value \<open>nrv1.NewRelicAPIKeySecret{}\<close>.\<close>

definition noAPIKeySecret :: api_key_secret where
  "noAPIKeySecret = \<lparr>aks_Name = [], aks_Namespace = [], aks_KeyName = []\<rparr>"

text \<open>\<open>v1.Secret\<close>: only \<open>Data\<close> is read. The zero value has no data.\<close>

record secret =
  sec_Data :: "(string \<times> string) list"

definition zeroSecret :: secret where
  "zeroSecret = \<lparr>sec_Data = []\<rparr>"

text \<open>\<open>string(apiKeySecret.Data[k])\<close>: a missing key reads as the empty byte slice.\<close>

definition secretField :: "secret \<Rightarrow> string \<Rightarrow> string" where
  "secretField sec k = (case map_of (sec_Data sec) k of None \<Rightarrow> [] | Some v \<Rightarrow> v)"

record condition_spec =
  cs_Name :: string
  cs_Body :: string
  cs_Region :: string
  cs_ExistingPolicyID :: int
  cs_APIKey :: string
  cs_APIKeySecret :: api_key_secret

text \<open>The zero value \<open>nrv1.NrqlAlertConditionSpec{}\<close>.\<close>

definition zeroConditionSpec :: condition_spec where
  "zeroConditionSpec =
     \<lparr>cs_Name = [], cs_Body = [], cs_Region = [], cs_ExistingPolicyID = 0,
      cs_APIKey = [], cs_APIKeySecret = noAPIKeySecret\<rparr>"

record condition_status =
  cst_AppliedSpec :: "condition_spec option"
  cst_ConditionID :: int

record condition =
  c_Name :: string
  c_Namespace :: string
  c_Labels :: "(string \<times> string) list"
  c_ResourceVersion :: string
  c_Spec :: condition_spec
  c_Status :: condition_status

record policy_spec =
  ps_Name :: string
  ps_IncidentPreference :: string
  ps_Conditions :: "condition list"
  ps_APIKey :: string
  ps_APIKeySecret :: api_key_secret
  ps_Region :: string

text \<open>\<open>AppliedSpec\<close> is a pointer: \<open>None\<close> is \<open>nil\<close>.\<close>

record policy_status =
  pst_AppliedSpec :: "policy_spec option"
  pst_PolicyID :: int

text \<open>
  \<open>DeletionTimestamp\<close> is a pointer to a time; \<open>None\<close> stands for every value on
  which \<open>IsZero()\<close> answers true.
\<close>

record policy =
  p_Name :: string
  p_Namespace :: string
  p_Labels :: "(string \<times> string) list"
  p_Finalizers :: "string list"
  p_DeletionTimestamp :: "nat option"
  p_Spec :: policy_spec
  p_Status :: policy_status

record channel_spec =
  chs_Name :: string
  chs_Body :: string
  chs_APIKey :: string
  chs_APIKeySecret :: api_key_secret
  chs_Region :: string

record channel_status =
  chst_AppliedSpec :: "channel_spec option"
  chst_ChannelID :: int

record alerts_channel =
  ch_Name :: string
  ch_Namespace :: string
  ch_Finalizers :: "string list"
  ch_DeletionTimestamp :: "nat option"
  ch_Spec :: channel_spec
  ch_Status :: channel_status

text \<open>\<open>alerts.Policy\<close> and \<open>alerts.Channel\<close> of the remote client.\<close>

record api_policy =
  ap_ID :: int
  ap_Name :: string
  ap_IncidentPreference :: string

record api_channel =
  ac_ID :: int
  ac_Name :: string
  ac_Body :: string

section \<open>Effects\<close>

text \<open>
  Every call that leaves the reconciler is an event: the call with its argument, and
  the error it returned (\<open>None\<close> for \<open>nil\<close>). Calls to the declarative store are the
  \<open>K8s\<close> constructors, calls to the remote alerting API the \<open>Alerts\<close> constructors;
  \<open>AlertClientFunc\<close> is the injected client factory.
\<close>

datatype call =
    K8sGetPolicy namespaced_name
  | K8sGetAlertsChannel namespaced_name
  | K8sGetSecret namespaced_name
  | K8sUpdatePolicy policy
  | K8sUpdateAlertsChannel alerts_channel
  | K8sCreateCondition condition
  | K8sUpdateCondition condition
  | K8sDeleteCondition condition
  | AlertClientFunc string string
  | AlertsCreatePolicy api_policy
  | AlertsUpdatePolicy api_policy
  | AlertsDeletePolicy int
  | AlertsListPolicies string
  | AlertsCreateChannel api_channel
  | AlertsDeleteChannel int

type_synonym event = "call \<times> error option"

datatype log_entry = Info string | ErrorLog "error option" string

record rstate =
  calls :: "event list"
  logs :: "log_entry list"

text \<open>
  The collaborators. Each answer may depend on everything that happened before (the
  events so far), so a collaborator may fail the second call and not the first, and the
  store may answer differently after a write. A store call that succeeds on an object
  passed by pointer returns the object as the store filled it in; after a failure the
  caller's object is as it was.

  The reconcilers read the object again after a store call only for a condition
  (it goes back into the list of conditions of the policy), so only the create and the
  update of a condition return the object; an update of a policy or of a channel
  returns its error alone. A remote call returns its error or its object.

  \<open>env_APIPolicy\<close>, \<open>env_APIChannel\<close> (methods of \<open>api/v1\<close>) and \<open>env_spew\<close> (the bytes
  that \<open>spew\<close> prints for \<open>%#v\<close>) are library code outside the controllers and are
  parameters.

  \<open>reflect.DeepEqual\<close> on specifications and conditions is equality of the records
  (a \<open>nil\<close> and an empty slice are not told apart), and a log line is kept with its
  message and its error, without the key and value pairs.
\<close>

record env =
  env_GetPolicy :: "event list \<Rightarrow> namespaced_name \<Rightarrow> error + policy"
  env_GetAlertsChannel :: "event list \<Rightarrow> namespaced_name \<Rightarrow> error + alerts_channel"
  env_GetSecret :: "event list \<Rightarrow> namespaced_name \<Rightarrow> error + secret"
  env_UpdatePolicy :: "event list \<Rightarrow> policy \<Rightarrow> error option"
  env_UpdateAlertsChannel :: "event list \<Rightarrow> alerts_channel \<Rightarrow> error option"
  env_CreateCondition :: "event list \<Rightarrow> condition \<Rightarrow> error + condition"
  env_UpdateCondition :: "event list \<Rightarrow> condition \<Rightarrow> error + condition"
  env_DeleteCondition :: "event list \<Rightarrow> condition \<Rightarrow> error option"
  env_AlertClientFunc :: "event list \<Rightarrow> string \<Rightarrow> string \<Rightarrow> error option"
  env_CreatePolicy :: "event list \<Rightarrow> api_policy \<Rightarrow> error + api_policy"
  env_UpdatePolicy_remote :: "event list \<Rightarrow> api_policy \<Rightarrow> error + api_policy"
  env_DeletePolicy :: "event list \<Rightarrow> int \<Rightarrow> error option"
  env_ListPolicies :: "event list \<Rightarrow> string \<Rightarrow> error + api_policy list"
  env_CreateChannel :: "event list \<Rightarrow> api_channel \<Rightarrow> error + api_channel"
  env_DeleteChannel :: "event list \<Rightarrow> int \<Rightarrow> error option"
  env_APIPolicy :: "policy_spec \<Rightarrow> api_policy"
  env_APIChannel :: "channel_spec \<Rightarrow> api_channel"
  env_spew :: "condition_spec \<Rightarrow> 8 word list"

fun errOf :: "error + 'a \<Rightarrow> error option" where
  "errOf (Inl e) = Some e"
| "errOf (Inr _) = None"

definition emit :: "call \<Rightarrow> error option \<Rightarrow> rstate \<Rightarrow> rstate" where
  "emit c r s = s\<lparr>calls := calls s @ [(c, r)]\<rparr>"

definition logInfo :: "string \<Rightarrow> rstate \<Rightarrow> rstate" where
  "logInfo msg s = s\<lparr>logs := logs s @ [Info msg]\<rparr>"

definition logError :: "error option \<Rightarrow> string \<Rightarrow> rstate \<Rightarrow> rstate" where
  "logError err msg s = s\<lparr>logs := logs s @ [ErrorLog err msg]\<rparr>"

definition k8sGetPolicy ::
  "env \<Rightarrow> namespaced_name \<Rightarrow> rstate \<Rightarrow> (error + policy) \<times> rstate" where
  "k8sGetPolicy env key s =
     (let r = env_GetPolicy env (calls s) key in (r, emit (K8sGetPolicy key) (errOf r) s))"

definition k8sGetAlertsChannel ::
  "env \<Rightarrow> namespaced_name \<Rightarrow> rstate \<Rightarrow> (error + alerts_channel) \<times> rstate" where
  "k8sGetAlertsChannel env key s =
     (let r = env_GetAlertsChannel env (calls s) key
      in (r, emit (K8sGetAlertsChannel key) (errOf r) s))"

definition k8sGetSecret ::
  "env \<Rightarrow> namespaced_name \<Rightarrow> rstate \<Rightarrow> (error + secret) \<times> rstate" where
  "k8sGetSecret env key s =
     (let r = env_GetSecret env (calls s) key in (r, emit (K8sGetSecret key) (errOf r) s))"

definition k8sUpdatePolicy :: "env \<Rightarrow> policy \<Rightarrow> rstate \<Rightarrow> error option \<times> rstate" where
  "k8sUpdatePolicy env p s =
     (let r = env_UpdatePolicy env (calls s) p in (r, emit (K8sUpdatePolicy p) r s))"

definition k8sUpdateAlertsChannel ::
  "env \<Rightarrow> alerts_channel \<Rightarrow> rstate \<Rightarrow> error option \<times> rstate" where
  "k8sUpdateAlertsChannel env c s =
     (let r = env_UpdateAlertsChannel env (calls s) c
      in (r, emit (K8sUpdateAlertsChannel c) r s))"

definition k8sCreateCondition ::
  "env \<Rightarrow> condition \<Rightarrow> rstate \<Rightarrow> (error + condition) \<times> rstate" where
  "k8sCreateCondition env c s =
     (let r = env_CreateCondition env (calls s) c
      in (r, emit (K8sCreateCondition c) (errOf r) s))"

definition k8sUpdateCondition ::
  "env \<Rightarrow> condition \<Rightarrow> rstate \<Rightarrow> (error + condition) \<times> rstate" where
  "k8sUpdateCondition env c s =
     (let r = env_UpdateCondition env (calls s) c
      in (r, emit (K8sUpdateCondition c) (errOf r) s))"

definition k8sDeleteCondition ::
  "env \<Rightarrow> condition \<Rightarrow> rstate \<Rightarrow> error option \<times> rstate" where
  "k8sDeleteCondition env c s =
     (let r = env_DeleteCondition env (calls s) c in (r, emit (K8sDeleteCondition c) r s))"

definition newAlertsClient ::
  "env \<Rightarrow> string \<Rightarrow> string \<Rightarrow> rstate \<Rightarrow> error option \<times> rstate" where
  "newAlertsClient env key region s =
     (let r = env_AlertClientFunc env (calls s) key region
      in (r, emit (AlertClientFunc key region) r s))"

definition alertsCreatePolicy ::
  "env \<Rightarrow> api_policy \<Rightarrow> rstate \<Rightarrow> (error + api_policy) \<times> rstate" where
  "alertsCreatePolicy env a s =
     (let r = env_CreatePolicy env (calls s) a
      in (r, emit (AlertsCreatePolicy a) (errOf r) s))"

definition alertsUpdatePolicy ::
  "env \<Rightarrow> api_policy \<Rightarrow> rstate \<Rightarrow> (error + api_policy) \<times> rstate" where
  "alertsUpdatePolicy env a s =
     (let r = env_UpdatePolicy_remote env (calls s) a
      in (r, emit (AlertsUpdatePolicy a) (errOf r) s))"

definition alertsDeletePolicy :: "env \<Rightarrow> int \<Rightarrow> rstate \<Rightarrow> error option \<times> rstate" where
  "alertsDeletePolicy env i s =
     (let r = env_DeletePolicy env (calls s) i in (r, emit (AlertsDeletePolicy i) r s))"

definition alertsListPolicies ::
  "env \<Rightarrow> string \<Rightarrow> rstate \<Rightarrow> (error + api_policy list) \<times> rstate" where
  "alertsListPolicies env n s =
     (let r = env_ListPolicies env (calls s) n
      in (r, emit (AlertsListPolicies n) (errOf r) s))"

definition alertsCreateChannel ::
  "env \<Rightarrow> api_channel \<Rightarrow> rstate \<Rightarrow> (error + api_channel) \<times> rstate" where
  "alertsCreateChannel env a s =
     (let r = env_CreateChannel env (calls s) a
      in (r, emit (AlertsCreateChannel a) (errOf r) s))"

definition alertsDeleteChannel :: "env \<Rightarrow> int \<Rightarrow> rstate \<Rightarrow> error option \<times> rstate" where
  "alertsDeleteChannel env i s =
     (let r = env_DeleteChannel env (calls s) i in (r, emit (AlertsDeleteChannel i) r s))"

text \<open>
  What a function of the controllers hands back: it returned an error value
  (\<open>None\<close> is \<open>nil\<close>), or the Go runtime panicked.
\<close>

datatype result = Returned "error option" | Panicked string

section \<open>Helpers of the package\<close>

text \<open>
  Modelled from the spec: \<open>containsString\<close> and \<open>removeString\<close> are defined in a file
  of the package that is not part of the sources at hand. The finalizer guard is
  "present" when the list holds the string, and "stripped" by dropping every
  occurrence of it.
\<close>

definition containsString :: "string list \<Rightarrow> string \<Rightarrow> bool" where
  "containsString strs s = list_ex (\<lambda>item. item = s) strs"

definition removeString :: "string list \<Rightarrow> string \<Rightarrow> string list" where
  "removeString strs s = filter (\<lambda>item. item \<noteq> s) strs"

text \<open>\<open>strings.Contains\<close>.\<close>

fun strings_Contains :: "string \<Rightarrow> string \<Rightarrow> bool" where
  "strings_Contains [] substr = (substr = [])"
| "strings_Contains (c # s) substr =
     (take (length substr) (c # s) = substr \<or> strings_Contains s substr)"

text \<open>\<open>fmt.Sprintf("%d", n)\<close> for an unsigned number.\<close>

fun sprintf_d :: "nat \<Rightarrow> string" where
  "sprintf_d n =
     (if n < 10 then [char_of (48 + n)]
      else sprintf_d (n div 10) @ [char_of (48 + n mod 10)])"

declare sprintf_d.simps [simp del]

text \<open>
  \<open>fnv.New32a\<close>: \<open>Reset\<close> puts the offset basis, \<open>Write\<close> folds every byte in with
  exclusive-or and then multiplies by the prime, in 32 bits.
\<close>

definition fnv32a_Write :: "32 word \<Rightarrow> 8 word list \<Rightarrow> 32 word" where
  "fnv32a_Write h bs = fold (\<lambda>b acc. (acc XOR ucast b) * 16777619) bs h"

definition DeepHashObject :: "env \<Rightarrow> condition_spec \<Rightarrow> 32 word" where
  "DeepHashObject env objectToWrite = fnv32a_Write 2166136261 (env_spew env objectToWrite)"

definition ComputeHash :: "env \<Rightarrow> condition_spec \<Rightarrow> 32 word" where
  "ComputeHash env template = DeepHashObject env template"

section \<open>The policy reconciler\<close>

definition Policy_deleteFinalizer :: string where
  "Policy_deleteFinalizer = ''storage.finalizers.tutorial.kubebuilder.io''"

text \<open>
  \<open>getAPIKeyOrSecret\<close> of the policy reconciler. The error of the secret fetch is
  logged whether or not it is \<open>nil\<close> and is not tested: after a failed fetch the local
  \<open>apiKeySecret\<close> is still the zero secret, and the field read from it is empty.
\<close>

definition Policy_getAPIKeyOrSecret :: "env \<Rightarrow> policy \<Rightarrow> rstate \<Rightarrow> string \<times> rstate" where
  "Policy_getAPIKeyOrSecret env policy s =
     (if ps_APIKey (p_Spec policy) \<noteq> [] then (ps_APIKey (p_Spec policy), s)
      else if ps_APIKeySecret (p_Spec policy) \<noteq> noAPIKeySecret then
        (let key = (aks_Namespace (ps_APIKeySecret (p_Spec policy)),
                    aks_Name (ps_APIKeySecret (p_Spec policy)))
         in case k8sGetSecret env key s of
              (r, s1) \<Rightarrow>
                (let apiKeySecret = (case r of Inl _ \<Rightarrow> zeroSecret | Inr sec \<Rightarrow> sec);
                     s2 = logError (errOf r) ''Failed to retrieve secret'' s1
                 in (secretField apiKeySecret (aks_KeyName (ps_APIKeySecret (p_Spec policy))),
                     s2)))
      else ([], s))"

text \<open>The loop of \<open>checkForExistingPolicy\<close>: the first exact name match wins (\<open>break\<close>).\<close>

fun adoptExisting :: "api_policy list \<Rightarrow> policy \<Rightarrow> rstate \<Rightarrow> policy \<times> rstate" where
  "adoptExisting [] policy s = (policy, s)"
| "adoptExisting (existingPolicy # rest) policy s =
     (if ap_Name existingPolicy = ps_Name (p_Spec policy) then
        (policy\<lparr>p_Status := (p_Status policy)\<lparr>pst_PolicyID := ap_ID existingPolicy\<rparr>\<rparr>,
         logInfo ''Matched on existing policy, updating PolicyId'' s)
      else adoptExisting rest policy s)"

definition checkForExistingPolicy :: "env \<Rightarrow> policy \<Rightarrow> rstate \<Rightarrow> policy \<times> rstate" where
  "checkForExistingPolicy env policy s =
     (if pst_PolicyID (p_Status policy) = 0 then
        (let s1 = logInfo ''Checking for existing policy'' s
         in case alertsListPolicies env (ps_Name (p_Spec policy)) s1 of
              (Inl err, s2) \<Rightarrow>
                (policy,
                 logError (Some err) ''failed to get list of NRQL policys from New Relic API'' s2)
            | (Inr existingPolicies, s2) \<Rightarrow> adoptExisting existingPolicies policy s2)
      else (policy, s))"

text \<open>
  \<open>createCondition\<close> works on the caller's copy of the condition and hands it back.
  The hash is taken of the specification as declared, before the parent's fields are
  copied down.
\<close>

definition createCondition ::
  "env \<Rightarrow> policy \<Rightarrow> condition \<Rightarrow> rstate \<Rightarrow> error option \<times> condition \<times> rstate" where
  "createCondition env policy condition s =
     (let conditionSpecHash = sprintf_d (unat (ComputeHash env (c_Spec condition)));
          c1 = condition
                 \<lparr>c_Name := p_Name policy @ conditionSpecHash,
                  c_Namespace := p_Namespace policy,
                  c_Labels := p_Labels policy,
                  c_Status := \<lparr>cst_AppliedSpec = Some zeroConditionSpec, cst_ConditionID = 0\<rparr>\<rparr>;
          c2 = c1\<lparr>c_Spec := (c_Spec c1)
                 \<lparr>cs_Region := ps_Region (p_Spec policy),
                  cs_ExistingPolicyID := pst_PolicyID (p_Status policy),
                  cs_APIKey := ps_APIKey (p_Spec policy),
                  cs_APIKeySecret := ps_APIKeySecret (p_Spec policy)\<rparr>\<rparr>;
          s1 = logInfo ''creating condition'' s
      in case k8sCreateCondition env c2 s1 of
           (Inl errCondition, s2) \<Rightarrow>
             (Some errCondition, c2, logError (Some errCondition) ''error creating condition'' s2)
         | (Inr created, s2) \<Rightarrow> (None, created, s2))"

definition setCondition :: "policy \<Rightarrow> nat \<Rightarrow> condition \<Rightarrow> policy" where
  "setCondition policy i condition =
     policy\<lparr>p_Spec := (p_Spec policy)
       \<lparr>ps_Conditions := (ps_Conditions (p_Spec policy))[i := condition]\<rparr>\<rparr>"

text \<open>
  The body of the \<open>range\<close> loop of \<open>createOrUpdateConditions\<close> for index \<open>i\<close>. Every path
  through the body ends in a \<open>return\<close> (the last statement of the body is
  \<open>return nil\<close>), so the body yields the result of the whole function.
  \<open>applied\<close> is \<open>policy.Status.AppliedSpec.Conditions\<close>; indexing it out of range panics.
  The error of the store update is dropped.
\<close>

definition conditionBody ::
  "env \<Rightarrow> condition list \<Rightarrow> nat \<Rightarrow> condition \<Rightarrow> policy \<Rightarrow> rstate
     \<Rightarrow> result \<times> policy \<times> rstate" where
  "conditionBody env applied i condition policy s =
     (let s1 = logInfo ''createOrUpdate condition'' s
      in if c_ResourceVersion condition \<noteq> [] then
           (if i < length applied then
              (let conditionToUpdate = applied ! i;
                   s2 = logInfo ''condition already created, check to see if we should update'' s1
               in if condition \<noteq> conditionToUpdate then
                    (let s3 = logInfo ''condition doesn't match, lets update'' s2
                     in case k8sUpdateCondition env condition s3 of
                          (r, s4) \<Rightarrow>
                            (let condition' = (case r of Inl _ \<Rightarrow> condition | Inr c \<Rightarrow> c)
                             in (Returned None, setCondition policy i condition',
                                 logInfo ''updated condition after creation'' s4)))
                  else (Returned None, policy, logInfo ''updated condition after creation'' s2))
            else (Panicked ''index out of range'', policy, s1))
         else
           (case createCondition env policy condition s1 of
              (Some err, condition', s2) \<Rightarrow>
                (Returned (Some err), policy, logError (Some err) ''error creating condition'' s2)
            | (None, condition', s2) \<Rightarrow>
                (Returned None, setCondition policy i condition',
                 logInfo ''updated condition after creation'' s2)))"

text \<open>
  \<open>createOrUpdateConditions\<close>. Reading \<open>policy.Status.AppliedSpec.Conditions\<close> through a
  \<open>nil\<close> pointer panics. The \<open>range\<close> loop starts at index 0 and its body always
  returns, so only the first declared condition is ever looked at; with no declared
  condition the statement after the loop returns \<open>nil\<close>.
\<close>

definition createOrUpdateConditions ::
  "env \<Rightarrow> policy \<Rightarrow> rstate \<Rightarrow> result \<times> policy \<times> rstate" where
  "createOrUpdateConditions env policy s =
     (case pst_AppliedSpec (p_Status policy) of
        None \<Rightarrow> (Panicked ''nil pointer dereference'', policy, s)
      | Some appliedSpec \<Rightarrow>
          if ps_Conditions (p_Spec policy) = ps_Conditions appliedSpec then
            (Returned None, policy, logInfo ''conditions match, not updating '' s)
          else
            (case ps_Conditions (p_Spec policy) of
               [] \<Rightarrow> (Returned None, policy, s)
             | condition # _ \<Rightarrow>
                 conditionBody env (ps_Conditions appliedSpec) 0 condition policy s))"

definition createPolicy :: "env \<Rightarrow> policy \<Rightarrow> rstate \<Rightarrow> result \<times> policy \<times> rstate" where
  "createPolicy env policy s =
     (let s1 = logInfo ''Creating policy'' s;
          APIPolicy = env_APIPolicy env (p_Spec policy)
      in case alertsCreatePolicy env APIPolicy s1 of
           (Inl err, s2) \<Rightarrow>
             (Returned (Some err), policy,
              logError (Some err) ''failed to create policy via New Relic API'' s2)
         | (Inr createdPolicy, s2) \<Rightarrow>
             (let policy1 =
                    policy\<lparr>p_Status := (p_Status policy)\<lparr>pst_PolicyID := ap_ID createdPolicy\<rparr>\<rparr>
              in case createOrUpdateConditions env policy1 s2 of
                   (Panicked msg, policy2, s3) \<Rightarrow> (Panicked msg, policy2, s3)
                 | (Returned (Some errConditions), policy2, s3) \<Rightarrow>
                     (Returned (Some errConditions), policy2,
                      logError (Some errConditions) ''error creating or updating conditions'' s3)
                 | (Returned None, policy2, s3) \<Rightarrow>
                     (let s4 = logInfo ''policy after resource creations'' s3;
                          policy3 = policy2\<lparr>p_Status := (p_Status policy2)
                                      \<lparr>pst_AppliedSpec := Some (p_Spec policy2)\<rparr>\<rparr>
                      in case k8sUpdatePolicy env policy3 s4 of
                           (Some err, s5) \<Rightarrow>
                             (Returned (Some err), policy3,
                              logError (Some err) ''tried updating policy status'' s5)
                         | (None, s5) \<Rightarrow> (Returned None, policy3, s5))))"

definition updatePolicy :: "env \<Rightarrow> policy \<Rightarrow> rstate \<Rightarrow> result \<times> policy \<times> rstate" where
  "updatePolicy env policy s =
     (let s1 = logInfo ''updating policy'' s;
          APIPolicy = (env_APIPolicy env (p_Spec policy))\<lparr>ap_ID := pst_PolicyID (p_Status policy)\<rparr>
      in case alertsUpdatePolicy env APIPolicy s1 of
           (Inl err, s2) \<Rightarrow>
             (Returned (Some err), policy,
              logError (Some err) ''failed to update policy via New Relic API'' s2)
         | (Inr updatedPolicy, s2) \<Rightarrow>
             (case createOrUpdateConditions env policy s2 of
                (Panicked msg, policy2, s3) \<Rightarrow> (Panicked msg, policy2, s3)
              | (Returned (Some errConditions), policy2, s3) \<Rightarrow>
                  (Returned (Some errConditions), policy2,
                   logError (Some errConditions) ''error creating or updating conditions'' s3)
              | (Returned None, policy2, s3) \<Rightarrow>
                  (let policy3 = policy2\<lparr>p_Status :=
                                   \<lparr>pst_AppliedSpec = Some (p_Spec policy2),
                                    pst_PolicyID = ap_ID updatedPolicy\<rparr>\<rparr>
                   in case k8sUpdatePolicy env policy3 s3 of
                        (Some err, s4) \<Rightarrow>
                          (Returned (Some err), policy3,
                           logError (Some err) ''failed to update policy status'' s4)
                      | (None, s4) \<Rightarrow> (Returned None, policy3, s4))))"

text \<open>\<open>updateCondition\<close> is never called and is left out.\<close>

definition deleteCondition :: "env \<Rightarrow> condition \<Rightarrow> rstate \<Rightarrow> error option \<times> rstate" where
  "deleteCondition env condition s =
     (let s1 = logInfo ''Deleting condition'' s
      in case k8sDeleteCondition env condition s1 of
           (Some err, s2) \<Rightarrow> (Some err, logError (Some err) ''error deleting condition resource'' s2)
         | (None, s2) \<Rightarrow> (None, s2))"

definition deleteNewRelicAlertPolicy :: "env \<Rightarrow> policy \<Rightarrow> rstate \<Rightarrow> error option \<times> rstate" where
  "deleteNewRelicAlertPolicy env policy s =
     (let s1 = logInfo ''Deleting policy'' s
      in case alertsDeletePolicy env (pst_PolicyID (p_Status policy)) s1 of
           (Some err, s2) \<Rightarrow>
             (Some err, logError (Some err) ''Error deleting policy via New Relic API'' s2)
         | (None, s2) \<Rightarrow> (None, s2))"

text \<open>
  The loop of \<open>deletePolicy\<close> over the conditions recorded in the applied
  specification: the first error ends it.
\<close>

fun deleteConditions :: "env \<Rightarrow> condition list \<Rightarrow> rstate \<Rightarrow> error option \<times> rstate" where
  "deleteConditions env [] s = (None, s)"
| "deleteConditions env (condition # rest) s =
     (case deleteCondition env condition s of
        (Some err, s1) \<Rightarrow> (Some err, logError (Some err) ''error deleting condition resources'' s1)
      | (None, s1) \<Rightarrow> deleteConditions env rest s1)"

definition deletePolicy ::
  "env \<Rightarrow> policy \<Rightarrow> string \<Rightarrow> rstate \<Rightarrow> result \<times> policy \<times> rstate" where
  "deletePolicy env policy deleteFinalizer s =
     (if containsString (p_Finalizers policy) deleteFinalizer then
        (if pst_PolicyID (p_Status policy) = 0 then
           (let s1 = logInfo ''No Condition ID set, just removing finalizer'' s;
                policy1 = policy\<lparr>p_Finalizers := removeString (p_Finalizers policy) deleteFinalizer\<rparr>
            in (Returned None, policy1, logInfo ''All done with policy deletion'' s1))
         else
           (case pst_AppliedSpec (p_Status policy) of
              None \<Rightarrow> (Panicked ''nil pointer dereference'', policy, s)
            | Some appliedSpec \<Rightarrow>
                (case deleteConditions env (ps_Conditions appliedSpec) s of
                   (Some err, s1) \<Rightarrow> (Returned (Some err), policy, s1)
                 | (None, s1) \<Rightarrow>
                     (case deleteNewRelicAlertPolicy env policy s1 of
                        (Some err, s2) \<Rightarrow>
                          (Returned (Some err), policy,
                           logError (Some err) ''Failed to delete Alert Policy via New Relic API'' s2)
                      | (None, s2) \<Rightarrow>
                          (let s3 = logInfo ''New Relic Alert policy deleted, Removing finalizer'' s2;
                               policy1 = policy\<lparr>p_Finalizers :=
                                           removeString (p_Finalizers policy) deleteFinalizer\<rparr>
                           in case k8sUpdatePolicy env policy1 s3 of
                                (Some err, s4) \<Rightarrow>
                                  (Returned (Some err), policy1,
                                   logError (Some err)
                                     ''Failed to update k8s records for this policy after successfully deleting the policy via New Relic Alert API''
                                     s4)
                              | (None, s4) \<Rightarrow>
                                  (Returned None, policy1,
                                   logInfo ''All done with policy deletion'' s4))))))
      else (Returned None, policy, logInfo ''All done with policy deletion'' s))"

text \<open>
  The part of \<open>Reconcile\<close> that follows the fetch, the credentials and the client:
  the deletion check, the finalizer, the short-circuit, discovery, and update or
  create.
\<close>

definition Policy_reconcileFetched :: "env \<Rightarrow> policy \<Rightarrow> rstate \<Rightarrow> result \<times> rstate" where
  "Policy_reconcileFetched env policy0 s =
     (if p_DeletionTimestamp policy0 = None then
        (let policy =
               (if \<not> containsString (p_Finalizers policy0) Policy_deleteFinalizer
                then policy0\<lparr>p_Finalizers := p_Finalizers policy0 @ [Policy_deleteFinalizer]\<rparr>
                else policy0)
         in if Some (p_Spec policy) = pst_AppliedSpec (p_Status policy) then (Returned None, s)
            else
              (let s1 = logInfo ''Reconciling'' s
               in case checkForExistingPolicy env policy s1 of
                    (policy1, s2) \<Rightarrow>
                      (if pst_PolicyID (p_Status policy1) \<noteq> 0 then
                         (case updatePolicy env policy1 s2 of (r, _, s3) \<Rightarrow> (r, s3))
                       else
                         (case createPolicy env policy1 s2 of (r, _, s3) \<Rightarrow> (r, s3)))))
      else (case deletePolicy env policy0 Policy_deleteFinalizer s of (r, _, s1) \<Rightarrow> (r, s1)))"

definition Policy_Reconcile :: "env \<Rightarrow> namespaced_name \<Rightarrow> rstate \<Rightarrow> result \<times> rstate" where
  "Policy_Reconcile env req s =
     (case k8sGetPolicy env req s of
        (Inl err, s1) \<Rightarrow>
          (if strings_Contains (errorText err) '' not found'' then
             (Returned None,
              logInfo ''Policy 'not found' after being deleted. This is expected and no cause for alarm'' s1)
           else (Returned None, logError (Some err) ''Failed to GET policy'' s1))
      | (Inr policy, s1) \<Rightarrow>
          (let s2 = logInfo ''policy spec'' (logInfo ''Starting reconcile action'' s1)
           in case Policy_getAPIKeyOrSecret env policy s2 of
                (apiKey, s3) \<Rightarrow>
                  (if apiKey = [] then (Returned (Some (Error ''api key is blank'')), s3)
                   else
                     (case newAlertsClient env apiKey (ps_Region (p_Spec policy)) s3 of
                        (Some errAlertsClient, s4) \<Rightarrow>
                          (Returned (Some errAlertsClient),
                           logError (Some errAlertsClient) ''Failed to create AlertsClient'' s4)
                      | (None, s4) \<Rightarrow> Policy_reconcileFetched env policy s4))))"

section \<open>The channel reconciler\<close>

definition Channel_deleteFinalizer :: string where
  "Channel_deleteFinalizer = ''alertschannels.finalizers.nr.k8s.newrelic.com''"

text \<open>\<open>getAPIKeyOrSecret\<close> of the channel reconciler: a failed fetch is logged and gives the empty string.\<close>

definition Channel_getAPIKeyOrSecret ::
  "env \<Rightarrow> alerts_channel \<Rightarrow> rstate \<Rightarrow> string \<times> rstate" where
  "Channel_getAPIKeyOrSecret env alertschannel s =
     (if chs_APIKey (ch_Spec alertschannel) \<noteq> [] then (chs_APIKey (ch_Spec alertschannel), s)
      else if chs_APIKeySecret (ch_Spec alertschannel) \<noteq> noAPIKeySecret then
        (let key = (aks_Namespace (chs_APIKeySecret (ch_Spec alertschannel)),
                    aks_Name (chs_APIKeySecret (ch_Spec alertschannel)))
         in case k8sGetSecret env key s of
              (Inl getErr, s1) \<Rightarrow> ([], logError (Some getErr) ''Failed to retrieve secret'' s1)
            | (Inr apiKeySecret, s1) \<Rightarrow>
                (secretField apiKeySecret (aks_KeyName (chs_APIKeySecret (ch_Spec alertschannel))),
                 s1))
      else ([], s))"

text \<open>
  \<open>deleteAlertsChannel\<close>: the error of the remote delete is logged and then
  overwritten by the result of the store update.
\<close>

definition deleteAlertsChannel ::
  "env \<Rightarrow> alerts_channel \<Rightarrow> string \<Rightarrow> rstate \<Rightarrow> error option \<times> alerts_channel \<times> rstate" where
  "deleteAlertsChannel env alertsChannel deleteFinalizer s =
     (let s1 = logInfo ''Deleting AlertsChannel'' s;
          s2 = (if chst_ChannelID (ch_Status alertsChannel) \<noteq> 0 then
                  (case alertsDeleteChannel env (chst_ChannelID (ch_Status alertsChannel)) s1 of
                     (Some err, s') \<Rightarrow> logError (Some err) ''error deleting AlertsChannel'' s'
                   | (None, s') \<Rightarrow> s')
                else s1);
          alertsChannel1 = alertsChannel
            \<lparr>ch_Finalizers := removeString (ch_Finalizers alertsChannel) deleteFinalizer\<rparr>
      in case k8sUpdateAlertsChannel env alertsChannel1 s2 of
           (Some err, s3) \<Rightarrow>
             (Some err, alertsChannel1, logError (Some err) ''tried updating condition status'' s3)
         | (None, s3) \<Rightarrow> (None, alertsChannel1, s3))"

definition createAlertsChannel ::
  "env \<Rightarrow> alerts_channel \<Rightarrow> rstate \<Rightarrow> error option \<times> alerts_channel \<times> rstate" where
  "createAlertsChannel env alertsChannel s =
     (let s1 = logInfo ''Creating AlertsChannel'' s;
          APIChannel = env_APIChannel env (ch_Spec alertsChannel)
      in case alertsCreateChannel env APIChannel s1 of
           (Inl err, s2) \<Rightarrow>
             (Some err, alertsChannel,
              logError (Some err) (''error creating AlertsChannel'' @ ch_Name alertsChannel) s2)
         | (Inr createdCondition, s2) \<Rightarrow>
             (let alertsChannel1 = alertsChannel\<lparr>ch_Status :=
                    \<lparr>chst_AppliedSpec = Some (ch_Spec alertsChannel),
                     chst_ChannelID = ac_ID createdCondition\<rparr>\<rparr>
              in case k8sUpdateAlertsChannel env alertsChannel1 s2 of
                   (Some err, s3) \<Rightarrow>
                     (Some err, alertsChannel1,
                      logError (Some err) ''tried updating condition status'' s3)
                 | (None, s3) \<Rightarrow> (None, alertsChannel1, s3)))"

text \<open>\<open>updateAlertsChannel\<close> returns \<open>nil\<close> and does nothing else.\<close>

definition updateAlertsChannel ::
  "env \<Rightarrow> alerts_channel \<Rightarrow> rstate \<Rightarrow> error option \<times> alerts_channel \<times> rstate" where
  "updateAlertsChannel env alertschannel s = (None, alertschannel, s)"

text \<open>\<open>checkForExistingAlertsChannel\<close> has an empty body.\<close>

definition checkForExistingAlertsChannel ::
  "env \<Rightarrow> alerts_channel \<Rightarrow> rstate \<Rightarrow> alerts_channel \<times> rstate" where
  "checkForExistingAlertsChannel env alertsChannel s = (alertsChannel, s)"

text \<open>
  The part of the channel's \<open>Reconcile\<close> from the short-circuit on. It is reached both
  when the channel is not being deleted and after a deletion that returned no error
  (the deletion branch has no \<open>return\<close> of its own).
\<close>

definition Channel_createOrUpdate :: "env \<Rightarrow> alerts_channel \<Rightarrow> rstate \<Rightarrow> result \<times> rstate" where
  "Channel_createOrUpdate env alertsChannel s =
     (if Some (ch_Spec alertsChannel) = chst_AppliedSpec (ch_Status alertsChannel)
      then (Returned None, s)
      else
        (let s1 = logInfo ''Reconciling'' s
         in case checkForExistingAlertsChannel env alertsChannel s1 of
              (alertsChannel1, s2) \<Rightarrow>
                (if chst_ChannelID (ch_Status alertsChannel1) \<noteq> 0 then
                   (case updateAlertsChannel env alertsChannel1 s2 of
                      (Some err, _, s3) \<Rightarrow>
                        (Returned (Some err), logError (Some err) ''error updating alertsChannel'' s3)
                    | (None, _, s3) \<Rightarrow> (Returned None, s3))
                 else
                   (case createAlertsChannel env alertsChannel1 s2 of
                      (Some err, _, s3) \<Rightarrow>
                        (Returned (Some err), logError (Some err) ''Error creating alertsChannel'' s3)
                    | (None, _, s3) \<Rightarrow> (Returned None, s3)))))"

definition Channel_reconcileFetched ::
  "env \<Rightarrow> alerts_channel \<Rightarrow> rstate \<Rightarrow> result \<times> rstate" where
  "Channel_reconcileFetched env alertsChannel0 s =
     (if ch_DeletionTimestamp alertsChannel0 = None then
        Channel_createOrUpdate env
          (if \<not> containsString (ch_Finalizers alertsChannel0) Channel_deleteFinalizer
           then alertsChannel0
                  \<lparr>ch_Finalizers := ch_Finalizers alertsChannel0 @ [Channel_deleteFinalizer]\<rparr>
           else alertsChannel0) s
      else
        (case deleteAlertsChannel env alertsChannel0 Channel_deleteFinalizer s of
           (Some err, _, s1) \<Rightarrow>
             (Returned (Some err), logError (Some err) ''error deleting channel'' s1)
         | (None, alertsChannel1, s1) \<Rightarrow> Channel_createOrUpdate env alertsChannel1 s1))"

definition Channel_Reconcile :: "env \<Rightarrow> namespaced_name \<Rightarrow> rstate \<Rightarrow> result \<times> rstate" where
  "Channel_Reconcile env req s =
     (case k8sGetAlertsChannel env req s of
        (Inl err, s1) \<Rightarrow>
          (if strings_Contains (errorText err) '' not found'' then
             (Returned None,
              logInfo ''AlertsChannel 'not found' after being deleted. This is expected and no cause for alarm'' s1)
           else (Returned None, logError (Some err) ''Failed to GET alertsChannel'' s1))
      | (Inr alertsChannel, s1) \<Rightarrow>
          (let s2 = logInfo ''alertsChannel'' (logInfo ''Starting reconcile action'' s1)
           in case Channel_getAPIKeyOrSecret env alertsChannel s2 of
                (apiKey, s3) \<Rightarrow>
                  (if apiKey = [] then (Returned (Some (Error ''api key is blank'')), s3)
                   else
                     (case newAlertsClient env apiKey (chs_Region (ch_Spec alertsChannel)) s3 of
                        (Some errAlertsClient, s4) \<Rightarrow>
                          (Returned (Some errAlertsClient),
                           logError (Some errAlertsClient) ''Failed to create AlertsClient'' s4)
                      | (None, s4) \<Rightarrow> Channel_reconcileFetched env alertsChannel s4))))"

section \<open>Observing an invocation\<close>

text \<open>Calls to the remote alerting API, and calls that write to the declarative store.\<close>

fun isRemote :: "call \<Rightarrow> bool" where
  "isRemote (AlertsCreatePolicy _) = True"
| "isRemote (AlertsUpdatePolicy _) = True"
| "isRemote (AlertsDeletePolicy _) = True"
| "isRemote (AlertsListPolicies _) = True"
| "isRemote (AlertsCreateChannel _) = True"
| "isRemote (AlertsDeleteChannel _) = True"
| "isRemote _ = False"

fun isStoreWrite :: "call \<Rightarrow> bool" where
  "isStoreWrite (K8sUpdatePolicy _) = True"
| "isStoreWrite (K8sUpdateAlertsChannel _) = True"
| "isStoreWrite (K8sCreateCondition _) = True"
| "isStoreWrite (K8sUpdateCondition _) = True"
| "isStoreWrite (K8sDeleteCondition _) = True"
| "isStoreWrite _ = False"

fun isCreate :: "call \<Rightarrow> bool" where
  "isCreate (AlertsCreatePolicy _) = True"
| "isCreate (AlertsCreateChannel _) = True"
| "isCreate _ = False"

definition remoteCalls :: "event list \<Rightarrow> event list" where
  "remoteCalls evs = filter (\<lambda>ev. isRemote (fst ev)) evs"

definition storeWrites :: "event list \<Rightarrow> event list" where
  "storeWrites evs = filter (\<lambda>ev. isStoreWrite (fst ev)) evs"

definition createCalls :: "event list \<Rightarrow> event list" where
  "createCalls evs = filter (\<lambda>ev. isCreate (fst ev)) evs"

text \<open>The events of one invocation that took the state from \<open>s\<close> to \<open>s'\<close>.\<close>

definition issued :: "rstate \<Rightarrow> rstate \<Rightarrow> event list" where
  "issued s s' = drop (length (calls s)) (calls s')"

definition logged :: "rstate \<Rightarrow> rstate \<Rightarrow> log_entry list" where
  "logged s s' = drop (length (logs s)) (logs s')"

text \<open>
  Modelled from the spec: the declarative store is a collaborator outside the sources.
  Its \<open>update(Entity) -> error\<close> replaces the stored entity when it returns no error
  and leaves it as it was otherwise, and no other call of the reconciler changes the
  stored policy. \<open>storedPolicy p evs\<close> is the policy in the store after the events
  \<open>evs\<close> when it was \<open>p\<close> before them.
\<close>

fun storedPolicy :: "policy \<Rightarrow> event list \<Rightarrow> policy" where
  "storedPolicy p [] = p"
| "storedPolicy p ((K8sUpdatePolicy q, None) # evs) = storedPolicy q evs"
| "storedPolicy p (_ # evs) = storedPolicy p evs"

text \<open>The conditions that an event list created in the store, in order.\<close>

fun createdConditions :: "event list \<Rightarrow> condition list" where
  "createdConditions [] = []"
| "createdConditions ((K8sCreateCondition c, _) # evs) = c # createdConditions evs"
| "createdConditions (_ # evs) = createdConditions evs"



definition emptyState :: rstate where
  "emptyState = \<lparr>calls = [], logs = []\<rparr>"

section \<open>Test fixtures\<close>

text \<open>
  The objects of the package's integration test: the policy \<open>test-policy\<close> with one
  NRQL condition, and a client double whose calls all succeed (\<open>CreatePolicy\<close>
  answers with identifier 333). The store double answers every read with an error
  until a test puts an object in.
\<close>

definition zeroPolicySpec :: policy_spec where
  "zeroPolicySpec =
     \<lparr>ps_Name = [], ps_IncidentPreference = [], ps_Conditions = [], ps_APIKey = [],
      ps_APIKeySecret = noAPIKeySecret, ps_Region = []\<rparr>"

definition testCondition :: condition where
  "testCondition =
     \<lparr>c_Name = [], c_Namespace = [], c_Labels = [], c_ResourceVersion = [],
      c_Spec = \<lparr>cs_Name = ''NRQL Condition'', cs_Body = ''SELECT 1 FROM MyEvents'',
                cs_Region = ''us'', cs_ExistingPolicyID = 42, cs_APIKey = ''api-key'',
                cs_APIKeySecret = noAPIKeySecret\<rparr>,
      c_Status = \<lparr>cst_AppliedSpec = Some zeroConditionSpec, cst_ConditionID = 0\<rparr>\<rparr>"

definition testPolicy :: policy where
  "testPolicy =
     \<lparr>p_Name = ''test-policy'', p_Namespace = ''default'', p_Labels = [], p_Finalizers = [],
      p_DeletionTimestamp = None,
      p_Spec = \<lparr>ps_Name = ''test policy'', ps_IncidentPreference = ''PER_POLICY'',
                ps_Conditions = [testCondition], ps_APIKey = ''112233'',
                ps_APIKeySecret = noAPIKeySecret, ps_Region = []\<rparr>,
      p_Status = \<lparr>pst_AppliedSpec = Some zeroPolicySpec, pst_PolicyID = 0\<rparr>\<rparr>"

definition testChannel :: alerts_channel where
  "testChannel =
     \<lparr>ch_Name = ''test-channel'', ch_Namespace = ''default'', ch_Finalizers = [],
      ch_DeletionTimestamp = None,
      ch_Spec = \<lparr>chs_Name = ''my alert channel'', chs_Body = ''email'', chs_APIKey = ''112233'',
                 chs_APIKeySecret = noAPIKeySecret, chs_Region = ''US''\<rparr>,
      ch_Status = \<lparr>chst_AppliedSpec = None, chst_ChannelID = 0\<rparr>\<rparr>"

definition testRequest :: namespaced_name where
  "testRequest = (''default'', ''test-policy'')"

definition stubEnv :: env where
  "stubEnv =
     \<lparr>env_GetPolicy = (\<lambda>_ _. Inl (Error ''policy not found'')),
      env_GetAlertsChannel = (\<lambda>_ _. Inl (Error ''alertschannel not found'')),
      env_GetSecret = (\<lambda>_ _. Inl (Error ''secret not found'')),
      env_UpdatePolicy = (\<lambda>_ _. None),
      env_UpdateAlertsChannel = (\<lambda>_ _. None),
      env_CreateCondition = (\<lambda>_ c. Inr (c\<lparr>c_ResourceVersion := ''1''\<rparr>)),
      env_UpdateCondition = (\<lambda>_ c. Inr c),
      env_DeleteCondition = (\<lambda>_ _. None),
      env_AlertClientFunc = (\<lambda>_ _ _. None),
      env_CreatePolicy = (\<lambda>_ a. Inr (a\<lparr>ap_ID := 333\<rparr>)),
      env_UpdatePolicy_remote = (\<lambda>_ a. Inr a),
      env_DeletePolicy = (\<lambda>_ _. None),
      env_ListPolicies = (\<lambda>_ _. Inr []),
      env_CreateChannel = (\<lambda>_ a. Inr (a\<lparr>ac_ID := 444\<rparr>)),
      env_DeleteChannel = (\<lambda>_ _. None),
      env_APIPolicy = (\<lambda>sp. \<lparr>ap_ID = 0, ap_Name = ps_Name sp,
                               ap_IncidentPreference = ps_IncidentPreference sp\<rparr>),
      env_APIChannel = (\<lambda>sp. \<lparr>ac_ID = 0, ac_Name = chs_Name sp, ac_Body = chs_Body sp\<rparr>),
      env_spew = (\<lambda>sp. map of_char (cs_Name sp))\<rparr>"

text \<open>
  A policy under deletion with two recorded conditions, as the store holds it after a
  first successful reconciliation and a delete request.
\<close>

definition condA :: condition where
  "condA = testCondition\<lparr>c_Name := ''test-policy-a'', c_ResourceVersion := ''1''\<rparr>"

definition condB :: condition where
  "condB = testCondition\<lparr>c_Name := ''test-policy-b'', c_ResourceVersion := ''1''\<rparr>"

definition deletingPolicy :: policy where
  "deletingPolicy =
     testPolicy\<lparr>p_Finalizers := [Policy_deleteFinalizer], p_DeletionTimestamp := Some 1,
       p_Status := \<lparr>pst_AppliedSpec = Some ((p_Spec testPolicy)\<lparr>ps_Conditions := [condA, condB]\<rparr>),
                    pst_PolicyID = 333\<rparr>\<rparr>"

text \<open>Resources that name their key through a secret reference.\<close>

definition testSecretRef :: api_key_secret where
  "testSecretRef = \<lparr>aks_Name = ''nr-secret'', aks_Namespace = ''default'', aks_KeyName = ''api-key''\<rparr>"

definition secretPolicy :: policy where
  "secretPolicy =
     testPolicy\<lparr>p_Spec := (p_Spec testPolicy)\<lparr>ps_APIKey := [], ps_APIKeySecret := testSecretRef\<rparr>\<rparr>"

definition secretChannel :: alerts_channel where
  "secretChannel =
     testChannel\<lparr>ch_Spec := (ch_Spec testChannel)\<lparr>chs_APIKey := [], chs_APIKeySecret := testSecretRef\<rparr>\<rparr>"

text \<open>
  Converged resources: the applied specification equals the declared one. The second
  policy names its key through a secret reference.
\<close>

definition convergedPolicy :: policy where
  "convergedPolicy =
     testPolicy\<lparr>p_Finalizers := [Policy_deleteFinalizer],
       p_Status := \<lparr>pst_AppliedSpec = Some (p_Spec testPolicy), pst_PolicyID = 333\<rparr>\<rparr>"


definition convergedChannel :: alerts_channel where
  "convergedChannel =
     testChannel\<lparr>ch_Finalizers := [Channel_deleteFinalizer],
       ch_Status := \<lparr>chst_AppliedSpec = Some (ch_Spec testChannel), chst_ChannelID = 444\<rparr>\<rparr>"


text \<open>The client double of the test "when the New Relic API returns an error".\<close>

definition createFailsEnv :: env where
  "createFailsEnv =
     stubEnv\<lparr>env_GetPolicy := \<lambda>_ _. Inr testPolicy,
             env_CreatePolicy := \<lambda>_ _. Inl (Error ''Any Error Goes Here'')\<rparr>"

text \<open>
  An existing policy whose specification was changed after it converged, and client
  doubles on which one remote call fails.
\<close>

definition changedPolicy :: policy where
  "changedPolicy =
     convergedPolicy\<lparr>p_Spec := (p_Spec convergedPolicy)
       \<lparr>ps_IncidentPreference := ''PER_CONDITION_AND_TARGET''\<rparr>\<rparr>"

definition updateFailsEnv :: env where
  "updateFailsEnv =
     stubEnv\<lparr>env_GetPolicy := \<lambda>_ _. Inr changedPolicy,
             env_UpdatePolicy_remote := \<lambda>_ _. Inl (Error ''oh no'')\<rparr>"

definition deleteFailsEnv :: env where
  "deleteFailsEnv =
     stubEnv\<lparr>env_GetPolicy := \<lambda>_ _. Inr deletingPolicy,
             env_DeletePolicy := \<lambda>_ _. Some (Error ''Imaginary 404 Failure'')\<rparr>"

definition listFailsEnv :: env where
  "listFailsEnv =
     stubEnv\<lparr>env_GetPolicy := \<lambda>_ _. Inr testPolicy,
             env_ListPolicies := \<lambda>_ _. Inl (Error ''503 Service Unavailable'')\<rparr>"

definition channelCreateFailsEnv :: env where
  "channelCreateFailsEnv =
     stubEnv\<lparr>env_GetAlertsChannel := \<lambda>_ _. Inr testChannel,
             env_CreateChannel := \<lambda>_ _. Inl (Error ''Any Error Goes Here'')\<rparr>"



text \<open>A freshly declared policy with two conditions.\<close>

definition secondCondition :: condition where
  "secondCondition =
     testCondition\<lparr>c_Spec := (c_Spec testCondition)\<lparr>cs_Name := ''NRQL Condition 2''\<rparr>\<rparr>"

definition twoConditionPolicy :: policy where
  "twoConditionPolicy =
     testPolicy\<lparr>p_Spec := (p_Spec testPolicy)\<lparr>ps_Conditions := [testCondition, secondCondition]\<rparr>\<rparr>"

text \<open>A converged channel whose specification was renamed afterwards.\<close>

definition changedChannel :: alerts_channel where
  "changedChannel =
     convergedChannel\<lparr>ch_Spec := (ch_Spec convergedChannel)\<lparr>chs_Name := ''renamed channel''\<rparr>\<rparr>"

text \<open>A policy deleted before any remote policy was created for it.\<close>

definition neverCreatedPolicy :: policy where
  "neverCreatedPolicy =
     testPolicy\<lparr>p_Finalizers := [Policy_deleteFinalizer], p_DeletionTimestamp := Some 1\<rparr>"

section \<open>Basic facts\<close>

lemmas call_defs =
  k8sGetPolicy_def k8sGetAlertsChannel_def k8sGetSecret_def k8sUpdatePolicy_def
  k8sUpdateAlertsChannel_def k8sCreateCondition_def k8sUpdateCondition_def
  k8sDeleteCondition_def newAlertsClient_def alertsCreatePolicy_def alertsUpdatePolicy_def
  alertsDeletePolicy_def alertsListPolicies_def alertsCreateChannel_def
  alertsDeleteChannel_def

lemmas effect_defs = emit_def logInfo_def logError_def

lemmas model_defs =
  Policy_Reconcile_def Policy_reconcileFetched_def Policy_getAPIKeyOrSecret_def
  checkForExistingPolicy_def createPolicy_def updatePolicy_def createOrUpdateConditions_def
  conditionBody_def createCondition_def setCondition_def deletePolicy_def deleteCondition_def
  deleteNewRelicAlertPolicy_def Channel_Reconcile_def Channel_reconcileFetched_def
  Channel_createOrUpdate_def Channel_getAPIKeyOrSecret_def deleteAlertsChannel_def
  createAlertsChannel_def updateAlertsChannel_def checkForExistingAlertsChannel_def
  containsString_def removeString_def secretField_def zeroSecret_def
  Policy_deleteFinalizer_def Channel_deleteFinalizer_def

lemmas fixture_defs =
  stubEnv_def testPolicy_def testCondition_def testChannel_def testRequest_def
  emptyState_def zeroPolicySpec_def zeroConditionSpec_def noAPIKeySecret_def

lemma calls_emit [simp]: "calls (emit c r s) = calls s @ [(c, r)]"
  and logs_emit [simp]: "logs (emit c r s) = logs s"
  and calls_logInfo [simp]: "calls (logInfo m s) = calls s"
  and logs_logInfo [simp]: "logs (logInfo m s) = logs s @ [Info m]"
  and calls_logError [simp]: "calls (logError e m s) = calls s"
  and logs_logError [simp]: "logs (logError e m s) = logs s @ [ErrorLog e m]"
  by (simp_all add: effect_defs)

lemma issued_append [simp]: "calls s' = calls s @ evs \<Longrightarrow> issued s s' = evs"
  by (simp add: issued_def)

lemma logged_append [simp]: "logs s' = logs s @ lg \<Longrightarrow> logged s s' = lg"
  by (simp add: logged_def)

lemma remoteCalls_simps [simp]:
  "remoteCalls [] = []"
  "remoteCalls (ev # evs) = (if isRemote (fst ev) then ev # remoteCalls evs else remoteCalls evs)"
  "remoteCalls (xs @ ys) = remoteCalls xs @ remoteCalls ys"
  by (simp_all add: remoteCalls_def)

lemma storeWrites_simps [simp]:
  "storeWrites [] = []"
  "storeWrites (ev # evs) =
     (if isStoreWrite (fst ev) then ev # storeWrites evs else storeWrites evs)"
  "storeWrites (xs @ ys) = storeWrites xs @ storeWrites ys"
  by (simp_all add: storeWrites_def)

lemma createCalls_simps [simp]:
  "createCalls [] = []"
  "createCalls (ev # evs) = (if isCreate (fst ev) then ev # createCalls evs else createCalls evs)"
  "createCalls (xs @ ys) = createCalls xs @ createCalls ys"
  by (simp_all add: createCalls_def)

section \<open>A failed fetch of the primary entity\<close>

text \<open>
  C10. Whatever error the initial fetch of the policy (of the channel) returns, be it
  "not found" or any other, \<open>Reconcile\<close> returns \<open>nil\<close>. The fetch is the only call of
  the invocation, so there is no remote call and no store write, and exactly one log
  line is written: an info line for "not found", an error line otherwise.
\<close>

theorem fetch_error_returns_success:
  "(env_GetPolicy env (calls s) req = Inl err \<longrightarrow>
      (case Policy_Reconcile env req s of
         (r, s') \<Rightarrow>
           r = Returned None \<and>
           issued s s' = [(K8sGetPolicy req, Some err)] \<and>
           remoteCalls (issued s s') = [] \<and> storeWrites (issued s s') = [] \<and>
           logged s s' =
             [if strings_Contains (errorText err) '' not found''
              then Info ''Policy 'not found' after being deleted. This is expected and no cause for alarm''
              else ErrorLog (Some err) ''Failed to GET policy''])) \<and>
   (env_GetAlertsChannel env (calls s) req = Inl err \<longrightarrow>
      (case Channel_Reconcile env req s of
         (r, s') \<Rightarrow>
           r = Returned None \<and>
           issued s s' = [(K8sGetAlertsChannel req, Some err)] \<and>
           remoteCalls (issued s s') = [] \<and> storeWrites (issued s s') = [] \<and>
           logged s s' =
             [if strings_Contains (errorText err) '' not found''
              then Info ''AlertsChannel 'not found' after being deleted. This is expected and no cause for alarm''
              else ErrorLog (Some err) ''Failed to GET alertsChannel'']))"
  by (simp add: Policy_Reconcile_def Channel_Reconcile_def k8sGetPolicy_def
      k8sGetAlertsChannel_def)

theorem fetch_error_returns_success_witness:
  "env_GetPolicy (stubEnv\<lparr>env_GetPolicy := \<lambda>_ _. Inl (Error ''etcdserver: request timed out'')\<rparr>)
     (calls emptyState) testRequest = Inl (Error ''etcdserver: request timed out'') \<and>
   Policy_Reconcile
     (stubEnv\<lparr>env_GetPolicy := \<lambda>_ _. Inl (Error ''etcdserver: request timed out'')\<rparr>)
     testRequest emptyState =
     (Returned None,
      \<lparr>calls = [(K8sGetPolicy testRequest, Some (Error ''etcdserver: request timed out''))],
       logs = [ErrorLog (Some (Error ''etcdserver: request timed out'')) ''Failed to GET policy'']\<rparr>) \<and>
   env_GetAlertsChannel stubEnv (calls emptyState) testRequest =
     Inl (Error ''alertschannel not found'') \<and>
   fst (Channel_Reconcile stubEnv testRequest emptyState) = Returned None \<and>
   calls (snd (Channel_Reconcile stubEnv testRequest emptyState)) =
     [(K8sGetAlertsChannel testRequest, Some (Error ''alertschannel not found''))]"
  using fetch_error_returns_success
      [of "stubEnv\<lparr>env_GetPolicy := \<lambda>_ _. Inl (Error ''etcdserver: request timed out'')\<rparr>"
          emptyState testRequest "Error ''etcdserver: request timed out''"]
    fetch_error_returns_success
      [of stubEnv emptyState testRequest "Error ''alertschannel not found''"]
  by (auto simp: stubEnv_def emptyState_def issued_def logged_def split: prod.splits)

section \<open>The deletion protocol of a policy\<close>

lemma deleteCondition_effect:
  "deleteCondition env c s = (r, s') \<Longrightarrow>
     calls s' = calls s @ [(K8sDeleteCondition c, r)] \<and>
     (\<exists>lg. logs s' = logs s @ lg \<and> (\<forall>e. r = Some e \<longrightarrow> ErrorLog (Some e) ''error deleting condition resource'' \<in> set lg))"
  by (auto simp: deleteCondition_def k8sDeleteCondition_def Let_def split: option.splits)

lemma deleteConditions_trace:
  "deleteConditions env cs s = (r, s') \<Longrightarrow>
     (case r of
        None \<Rightarrow> calls s' = calls s @ map (\<lambda>c. (K8sDeleteCondition c, None)) cs
      | Some e \<Rightarrow>
          (\<exists>k < length cs.
             calls s' = calls s @ map (\<lambda>c. (K8sDeleteCondition c, None)) (take k cs)
                          @ [(K8sDeleteCondition (cs ! k), Some e)])) \<and>
     (\<exists>lg. logs s' = logs s @ lg \<and>
        (\<forall>e. r = Some e \<longrightarrow> ErrorLog (Some e) ''error deleting condition resources'' \<in> set lg))"
proof (induction cs arbitrary: s)
  case Nil
  then show ?case by simp
next
  case (Cons c cs)
  obtain r1 s1 where d: "deleteCondition env c s = (r1, s1)" by (cases "deleteCondition env c s")
  from deleteCondition_effect[OF d] obtain lg1 where
    c1: "calls s1 = calls s @ [(K8sDeleteCondition c, r1)]" and l1: "logs s1 = logs s @ lg1"
    by blast
  show ?case
  proof (cases r1)
    case None
    with Cons.prems d have rest: "deleteConditions env cs s1 = (r, s')" by simp
    from Cons.IH[OF rest] obtain lg where
      tr: "case r of
             None \<Rightarrow> calls s' = calls s1 @ map (\<lambda>c. (K8sDeleteCondition c, None)) cs
           | Some e \<Rightarrow>
               (\<exists>k < length cs.
                  calls s' = calls s1 @ map (\<lambda>c. (K8sDeleteCondition c, None)) (take k cs)
                               @ [(K8sDeleteCondition (cs ! k), Some e)])"
      and lg: "logs s' = logs s1 @ lg"
        "\<forall>e. r = Some e \<longrightarrow> ErrorLog (Some e) ''error deleting condition resources'' \<in> set lg"
      by blast
    have "logs s' = logs s @ (lg1 @ lg)" using lg(1) l1 by simp
    moreover have "\<forall>e. r = Some e \<longrightarrow>
        ErrorLog (Some e) ''error deleting condition resources'' \<in> set (lg1 @ lg)"
      using lg(2) by simp
    ultimately have logs: "\<exists>lg. logs s' = logs s @ lg \<and>
        (\<forall>e. r = Some e \<longrightarrow> ErrorLog (Some e) ''error deleting condition resources'' \<in> set lg)"
      by blast
    show ?thesis
    proof (cases r)
      case None
      with tr c1 \<open>r1 = None\<close> logs show ?thesis by simp
    next
      case (Some e)
      with tr obtain k where k: "k < length cs"
        "calls s' = calls s1 @ map (\<lambda>c. (K8sDeleteCondition c, None)) (take k cs)
                               @ [(K8sDeleteCondition (cs ! k), Some e)]" by auto
      have "Suc k < length (c # cs) \<and>
            calls s' = calls s @ map (\<lambda>c. (K8sDeleteCondition c, None)) (take (Suc k) (c # cs))
                          @ [(K8sDeleteCondition ((c # cs) ! Suc k), Some e)]"
        using k c1 \<open>r1 = None\<close> by simp
      then have "\<exists>j < length (c # cs).
            calls s' = calls s @ map (\<lambda>c. (K8sDeleteCondition c, None)) (take j (c # cs))
                          @ [(K8sDeleteCondition ((c # cs) ! j), Some e)]"
        by (rule_tac x = "Suc k" in exI)
      from this logs show ?thesis unfolding Some option.case by (rule conjI)
    qed
  next
    case (Some e)
    with Cons.prems d have r: "r = Some e"
      and s': "s' = logError (Some e) ''error deleting condition resources'' s1"
      by auto
    have "0 < length (c # cs) \<and>
          calls s' = calls s @ map (\<lambda>c. (K8sDeleteCondition c, None)) (take 0 (c # cs))
                          @ [(K8sDeleteCondition ((c # cs) ! 0), Some e)]"
      using c1 s' Some by simp
    then have tr: "\<exists>j < length (c # cs).
            calls s' = calls s @ map (\<lambda>c. (K8sDeleteCondition c, None)) (take j (c # cs))
                          @ [(K8sDeleteCondition ((c # cs) ! j), Some e)]"
      by (rule_tac x = 0 in exI)
    have "logs s' = logs s @ (lg1 @ [ErrorLog (Some e) ''error deleting condition resources''])"
      using s' l1 by simp
    moreover have "\<forall>e'. r = Some e' \<longrightarrow>
        ErrorLog (Some e') ''error deleting condition resources''
          \<in> set (lg1 @ [ErrorLog (Some e) ''error deleting condition resources''])"
      using r by simp
    ultimately have logs: "\<exists>lg. logs s' = logs s @ lg \<and>
        (\<forall>e. r = Some e \<longrightarrow> ErrorLog (Some e) ''error deleting condition resources'' \<in> set lg)"
      by blast
    from tr logs show ?thesis unfolding r option.case by (rule conjI)
  qed
qed

lemma deletePolicy_trace:
  assumes "containsString (p_Finalizers p) fin"
    and "pst_PolicyID (p_Status p) \<noteq> 0"
    and "pst_AppliedSpec (p_Status p) = Some a"
  shows "case deletePolicy env p fin s of
      (r, p', s') \<Rightarrow>
        (\<exists>k e. k < length (ps_Conditions a) \<and>
            issued s s' = map (\<lambda>c. (K8sDeleteCondition c, None)) (take k (ps_Conditions a))
                          @ [(K8sDeleteCondition (ps_Conditions a ! k), Some e)] \<and>
            r = Returned (Some e) \<and> p' = p) \<or>
        (\<exists>e. issued s s' = map (\<lambda>c. (K8sDeleteCondition c, None)) (ps_Conditions a)
                          @ [(AlertsDeletePolicy (pst_PolicyID (p_Status p)), Some e)] \<and>
            r = Returned (Some e) \<and> p' = p) \<or>
        (\<exists>u. issued s s' = map (\<lambda>c. (K8sDeleteCondition c, None)) (ps_Conditions a)
                          @ [(AlertsDeletePolicy (pst_PolicyID (p_Status p)), None),
                             (K8sUpdatePolicy (p\<lparr>p_Finalizers := removeString (p_Finalizers p) fin\<rparr>), u)] \<and>
            r = Returned u \<and> p' = p\<lparr>p_Finalizers := removeString (p_Finalizers p) fin\<rparr>)"
proof -
  obtain rc s1 where dc: "deleteConditions env (ps_Conditions a) s = (rc, s1)"
    by (cases "deleteConditions env (ps_Conditions a) s")
  note tr = deleteConditions_trace[OF dc]
  show ?thesis
  proof (cases rc)
    case (Some e)
    with tr obtain k where "k < length (ps_Conditions a)"
      "calls s1 = calls s @ map (\<lambda>c. (K8sDeleteCondition c, None)) (take k (ps_Conditions a))
                          @ [(K8sDeleteCondition (ps_Conditions a ! k), Some e)]" by auto
    then show ?thesis using assms dc Some
      by (auto simp: deletePolicy_def)
  next
    case None
    with tr have c1: "calls s1 = calls s @ map (\<lambda>c. (K8sDeleteCondition c, None)) (ps_Conditions a)"
      by simp
    show ?thesis using assms dc None c1
      by (auto simp: deletePolicy_def deleteNewRelicAlertPolicy_def alertsDeletePolicy_def
          k8sUpdatePolicy_def Let_def split: option.splits)
  qed
qed

lemma deleteCondition_value:
  "deleteCondition env c s =
     (case env_DeleteCondition env (calls s) c of
        None \<Rightarrow> (None, emit (K8sDeleteCondition c) None (logInfo ''Deleting condition'' s))
      | Some e \<Rightarrow>
          (Some e, logError (Some e) ''error deleting condition resource''
                     (emit (K8sDeleteCondition c) (Some e) (logInfo ''Deleting condition'' s))))"
  by (simp add: deleteCondition_def k8sDeleteCondition_def Let_def split: option.splits)

lemma deleteConditions_all_ok:
  "\<forall>j < length cs.
      env_DeleteCondition env
        (calls s @ map (\<lambda>c. (K8sDeleteCondition c, None)) (take j cs)) (cs ! j) = None \<Longrightarrow>
   fst (deleteConditions env cs s) = None \<and>
   calls (snd (deleteConditions env cs s)) =
     calls s @ map (\<lambda>c. (K8sDeleteCondition c, None)) cs"
proof (induction cs arbitrary: s)
  case Nil
  show ?case by simp
next
  case (Cons c cs)
  let ?s1 = "emit (K8sDeleteCondition c) None (logInfo ''Deleting condition'' s)"
  from Cons.prems have first: "env_DeleteCondition env (calls s) c = None" by fastforce
  have rest: "\<forall>j < length cs.
      env_DeleteCondition env
        (calls ?s1 @ map (\<lambda>c. (K8sDeleteCondition c, None)) (take j cs)) (cs ! j) = None"
  proof (intro allI impI)
    fix j assume "j < length cs"
    then have "Suc j < length (c # cs)" by simp
    with Cons.prems have "env_DeleteCondition env
        (calls s @ map (\<lambda>c. (K8sDeleteCondition c, None)) (take (Suc j) (c # cs)))
        ((c # cs) ! Suc j) = None" by blast
    then show "env_DeleteCondition env
        (calls ?s1 @ map (\<lambda>c. (K8sDeleteCondition c, None)) (take j cs)) (cs ! j) = None"
      by simp
  qed
  have "deleteConditions env (c # cs) s = deleteConditions env cs ?s1"
    using first by (simp add: deleteCondition_value)
  with Cons.IH[OF rest] show ?case by simp
qed

lemma deleteConditions_first_failure:
  "k < length cs \<Longrightarrow>
   \<forall>j < k.
      env_DeleteCondition env
        (calls s @ map (\<lambda>c. (K8sDeleteCondition c, None)) (take j cs)) (cs ! j) = None \<Longrightarrow>
   env_DeleteCondition env
     (calls s @ map (\<lambda>c. (K8sDeleteCondition c, None)) (take k cs)) (cs ! k) = Some e \<Longrightarrow>
   fst (deleteConditions env cs s) = Some e \<and>
   calls (snd (deleteConditions env cs s)) =
     calls s @ map (\<lambda>c. (K8sDeleteCondition c, None)) (take k cs) @
       [(K8sDeleteCondition (cs ! k), Some e)]"
proof (induction cs arbitrary: s k)
  case Nil
  then show ?case by simp
next
  case (Cons c cs)
  show ?case
  proof (cases k)
    case 0
    with Cons.prems(3) have "env_DeleteCondition env (calls s) c = Some e" by simp
    then show ?thesis using 0 by (simp add: deleteCondition_value)
  next
    case (Suc k')
    let ?s1 = "emit (K8sDeleteCondition c) None (logInfo ''Deleting condition'' s)"
    from Cons.prems(2) Suc have first: "env_DeleteCondition env (calls s) c = None"
      by fastforce
    have len: "k' < length cs" using Cons.prems(1) Suc by simp
    have rest: "\<forall>j < k'.
      env_DeleteCondition env
        (calls ?s1 @ map (\<lambda>c. (K8sDeleteCondition c, None)) (take j cs)) (cs ! j) = None"
    proof (intro allI impI)
      fix j assume "j < k'"
      then have "Suc j < k" using Suc by simp
      with Cons.prems(2) have "env_DeleteCondition env
        (calls s @ map (\<lambda>c. (K8sDeleteCondition c, None)) (take (Suc j) (c # cs)))
        ((c # cs) ! Suc j) = None" by blast
      then show "env_DeleteCondition env
        (calls ?s1 @ map (\<lambda>c. (K8sDeleteCondition c, None)) (take j cs)) (cs ! j) = None"
        by simp
    qed
    have fail: "env_DeleteCondition env
        (calls ?s1 @ map (\<lambda>c. (K8sDeleteCondition c, None)) (take k' cs)) (cs ! k') = Some e"
      using Cons.prems(3) Suc by simp
    have "deleteConditions env (c # cs) s = deleteConditions env cs ?s1"
      using first by (simp add: deleteCondition_value)
    with Cons.IH[OF len rest fail] show ?thesis using Suc by simp
  qed
qed

lemma deletePolicy_children_deleted:
  assumes "containsString (p_Finalizers p) fin"
    and "pst_PolicyID (p_Status p) \<noteq> 0"
    and "pst_AppliedSpec (p_Status p) = Some a"
    and ok: "\<forall>j < length (ps_Conditions a).
      env_DeleteCondition env
        (calls s @ map (\<lambda>c. (K8sDeleteCondition c, None)) (take j (ps_Conditions a)))
        (ps_Conditions a ! j) = None"
    and d: "deletePolicy env p fin s = (r, p', s')"
  shows "case env_DeletePolicy env
                (calls s @ map (\<lambda>c. (K8sDeleteCondition c, None)) (ps_Conditions a))
                (pst_PolicyID (p_Status p)) of
           Some e \<Rightarrow>
             issued s s' = map (\<lambda>c. (K8sDeleteCondition c, None)) (ps_Conditions a) @
               [(AlertsDeletePolicy (pst_PolicyID (p_Status p)), Some e)] \<and>
             r = Returned (Some e) \<and> p' = p
         | None \<Rightarrow>
             issued s s' = map (\<lambda>c. (K8sDeleteCondition c, None)) (ps_Conditions a) @
               [(AlertsDeletePolicy (pst_PolicyID (p_Status p)), None),
                (K8sUpdatePolicy (p\<lparr>p_Finalizers := removeString (p_Finalizers p) fin\<rparr>),
                 env_UpdatePolicy env
                   (calls s @ map (\<lambda>c. (K8sDeleteCondition c, None)) (ps_Conditions a) @
                      [(AlertsDeletePolicy (pst_PolicyID (p_Status p)), None)])
                   (p\<lparr>p_Finalizers := removeString (p_Finalizers p) fin\<rparr>))] \<and>
             r = Returned (env_UpdatePolicy env
                   (calls s @ map (\<lambda>c. (K8sDeleteCondition c, None)) (ps_Conditions a) @
                      [(AlertsDeletePolicy (pst_PolicyID (p_Status p)), None)])
                   (p\<lparr>p_Finalizers := removeString (p_Finalizers p) fin\<rparr>)) \<and>
             p' = p\<lparr>p_Finalizers := removeString (p_Finalizers p) fin\<rparr>"
proof -
  obtain rc s1 where dc: "deleteConditions env (ps_Conditions a) s = (rc, s1)"
    by (cases "deleteConditions env (ps_Conditions a) s")
  from deleteConditions_all_ok[OF ok] dc
  have rc: "rc = None"
    and c1: "calls s1 = calls s @ map (\<lambda>c. (K8sDeleteCondition c, None)) (ps_Conditions a)"
    by simp_all
  show ?thesis
    using assms(1-3) d dc rc c1
    by (auto simp: deletePolicy_def deleteNewRelicAlertPolicy_def alertsDeletePolicy_def
        k8sUpdatePolicy_def Let_def issued_def split: option.splits)
qed

lemma deletePolicy_child_failure:
  assumes "containsString (p_Finalizers p) fin"
    and "pst_PolicyID (p_Status p) \<noteq> 0"
    and "pst_AppliedSpec (p_Status p) = Some a"
    and k: "k < length (ps_Conditions a)"
    and ok: "\<forall>j < k.
      env_DeleteCondition env
        (calls s @ map (\<lambda>c. (K8sDeleteCondition c, None)) (take j (ps_Conditions a)))
        (ps_Conditions a ! j) = None"
    and bad: "env_DeleteCondition env
        (calls s @ map (\<lambda>c. (K8sDeleteCondition c, None)) (take k (ps_Conditions a)))
        (ps_Conditions a ! k) = Some e"
    and d: "deletePolicy env p fin s = (r, p', s')"
  shows "issued s s' = map (\<lambda>c. (K8sDeleteCondition c, None)) (take k (ps_Conditions a)) @
           [(K8sDeleteCondition (ps_Conditions a ! k), Some e)] \<and>
         r = Returned (Some e) \<and> p' = p"
proof -
  obtain rc s1 where dc: "deleteConditions env (ps_Conditions a) s = (rc, s1)"
    by (cases "deleteConditions env (ps_Conditions a) s")
  from deleteConditions_first_failure[OF k ok bad] dc
  have rc: "rc = Some e"
    and c1: "calls s1 = calls s @ map (\<lambda>c. (K8sDeleteCondition c, None)) (take k (ps_Conditions a)) @
           [(K8sDeleteCondition (ps_Conditions a ! k), Some e)]"
    by simp_all
  show ?thesis
    using assms(1-3) d dc rc c1 by (auto simp: deletePolicy_def issued_def)
qed


text \<open>
  C4. A policy under deletion whose finalizer is present and whose remote identifier
  is set, with the conditions \<open>cs\<close> recorded in the applied specification. An answer
  of a collaborator is read at the events issued before the call.
  \<^item> What is issued. When the store deletes every recorded condition, the invocation
    issues the delete of each of them, in order, and then the remote delete of the
    policy; when that succeeds too, it then writes the policy without the finalizer to
    the store and returns what the write returns; when the remote delete fails, its
    error is returned, nothing is written and the policy object is untouched. When the
    delete of condition \<open>k\<close> is the first to fail, the invocation issues the deletes
    up to and with that one and nothing else, returns its error and leaves the policy
    object untouched. Every invocation has one of these three traces.
  \<^item> Whenever the remote policy delete is invoked, the events before it are the deletes
    of every recorded condition, in order and all successful.
  \<^item> Whenever the policy is written to the store, the write is the last event, it
    carries the policy with the finalizer removed, and the event just before it is the
    successful remote delete; the policy object itself changes only after that success.
  \<^item> A failed condition delete is the last event of the invocation: the conditions
    before it were deleted, its error is the result, the policy object is untouched and
    neither the remote delete nor the store write happens.
\<close>

theorem deletion_protocol_order:
  assumes "containsString (p_Finalizers p) fin"
    and "pst_PolicyID (p_Status p) \<noteq> 0"
    and "pst_AppliedSpec (p_Status p) = Some a"
  shows "case deletePolicy env p fin s of
      (r, p', s') \<Rightarrow>
        (\<forall>u. (AlertsDeletePolicy (pst_PolicyID (p_Status p)), u) \<in> set (issued s s') \<longrightarrow>
           take (length (ps_Conditions a)) (issued s s') =
             map (\<lambda>c. (K8sDeleteCondition c, None)) (ps_Conditions a) \<and>
           issued s s' ! length (ps_Conditions a) =
             (AlertsDeletePolicy (pst_PolicyID (p_Status p)), u)) \<and>
        (\<forall>q u. (K8sUpdatePolicy q, u) \<in> set (issued s s') \<longrightarrow>
           q = p\<lparr>p_Finalizers := removeString (p_Finalizers p) fin\<rparr> \<and>
           r = Returned u \<and>
           issued s s' =
             map (\<lambda>c. (K8sDeleteCondition c, None)) (ps_Conditions a) @
             [(AlertsDeletePolicy (pst_PolicyID (p_Status p)), None), (K8sUpdatePolicy q, u)]) \<and>
        (p' \<noteq> p \<longrightarrow>
           (AlertsDeletePolicy (pst_PolicyID (p_Status p)), None) \<in> set (issued s s')) \<and>
        (\<forall>c e. (K8sDeleteCondition c, Some e) \<in> set (issued s s') \<longrightarrow>
           r = Returned (Some e) \<and> p' = p \<and>
           (\<exists>k < length (ps_Conditions a).
              c = ps_Conditions a ! k \<and>
              issued s s' =
                map (\<lambda>c. (K8sDeleteCondition c, None)) (take k (ps_Conditions a)) @
                [(K8sDeleteCondition c, Some e)])) \<and>
        ((\<exists>k e. k < length (ps_Conditions a) \<and>
            issued s s' = map (\<lambda>c. (K8sDeleteCondition c, None)) (take k (ps_Conditions a))
                          @ [(K8sDeleteCondition (ps_Conditions a ! k), Some e)] \<and>
            r = Returned (Some e) \<and> p' = p) \<or>
         (\<exists>e. issued s s' = map (\<lambda>c. (K8sDeleteCondition c, None)) (ps_Conditions a)
                          @ [(AlertsDeletePolicy (pst_PolicyID (p_Status p)), Some e)] \<and>
            r = Returned (Some e) \<and> p' = p) \<or>
         (\<exists>u. issued s s' = map (\<lambda>c. (K8sDeleteCondition c, None)) (ps_Conditions a)
                          @ [(AlertsDeletePolicy (pst_PolicyID (p_Status p)), None),
                             (K8sUpdatePolicy (p\<lparr>p_Finalizers := removeString (p_Finalizers p) fin\<rparr>), u)] \<and>
            r = Returned u \<and> p' = p\<lparr>p_Finalizers := removeString (p_Finalizers p) fin\<rparr>)) \<and>
        ((\<forall>j < length (ps_Conditions a).
            env_DeleteCondition env
              (calls s @ map (\<lambda>c. (K8sDeleteCondition c, None)) (take j (ps_Conditions a)))
              (ps_Conditions a ! j) = None) \<longrightarrow>
         (case env_DeletePolicy env
                (calls s @ map (\<lambda>c. (K8sDeleteCondition c, None)) (ps_Conditions a))
                (pst_PolicyID (p_Status p)) of
           Some e \<Rightarrow>
             issued s s' = map (\<lambda>c. (K8sDeleteCondition c, None)) (ps_Conditions a) @
               [(AlertsDeletePolicy (pst_PolicyID (p_Status p)), Some e)] \<and>
             r = Returned (Some e) \<and> p' = p
         | None \<Rightarrow>
             issued s s' = map (\<lambda>c. (K8sDeleteCondition c, None)) (ps_Conditions a) @
               [(AlertsDeletePolicy (pst_PolicyID (p_Status p)), None),
                (K8sUpdatePolicy (p\<lparr>p_Finalizers := removeString (p_Finalizers p) fin\<rparr>),
                 env_UpdatePolicy env
                   (calls s @ map (\<lambda>c. (K8sDeleteCondition c, None)) (ps_Conditions a) @
                      [(AlertsDeletePolicy (pst_PolicyID (p_Status p)), None)])
                   (p\<lparr>p_Finalizers := removeString (p_Finalizers p) fin\<rparr>))] \<and>
             r = Returned (env_UpdatePolicy env
                   (calls s @ map (\<lambda>c. (K8sDeleteCondition c, None)) (ps_Conditions a) @
                      [(AlertsDeletePolicy (pst_PolicyID (p_Status p)), None)])
                   (p\<lparr>p_Finalizers := removeString (p_Finalizers p) fin\<rparr>)) \<and>
             p' = p\<lparr>p_Finalizers := removeString (p_Finalizers p) fin\<rparr>)) \<and>
        (k < length (ps_Conditions a) \<and>
         (\<forall>j < k.
            env_DeleteCondition env
              (calls s @ map (\<lambda>c. (K8sDeleteCondition c, None)) (take j (ps_Conditions a)))
              (ps_Conditions a ! j) = None) \<and>
         env_DeleteCondition env
           (calls s @ map (\<lambda>c. (K8sDeleteCondition c, None)) (take k (ps_Conditions a)))
           (ps_Conditions a ! k) = Some e \<longrightarrow>
           issued s s' = map (\<lambda>c. (K8sDeleteCondition c, None)) (take k (ps_Conditions a)) @
             [(K8sDeleteCondition (ps_Conditions a ! k), Some e)] \<and>
           r = Returned (Some e) \<and> p' = p)"
proof -
  obtain r p' s' where d: "deletePolicy env p fin s = (r, p', s')"
    by (cases "deletePolicy env p fin s")
  let ?cs = "ps_Conditions a"
  let ?ok = "map (\<lambda>c. (K8sDeleteCondition c, None :: error option))"
  let ?id = "pst_PolicyID (p_Status p)"
  let ?q = "p\<lparr>p_Finalizers := removeString (p_Finalizers p) fin\<rparr>"
  have shape: "((\<exists>k e. k < length (ps_Conditions a) \<and>
            issued s s' = map (\<lambda>c. (K8sDeleteCondition c, None)) (take k (ps_Conditions a))
                          @ [(K8sDeleteCondition (ps_Conditions a ! k), Some e)] \<and>
            r = Returned (Some e) \<and> p' = p) \<or>
         (\<exists>e. issued s s' = map (\<lambda>c. (K8sDeleteCondition c, None)) (ps_Conditions a)
                          @ [(AlertsDeletePolicy (pst_PolicyID (p_Status p)), Some e)] \<and>
            r = Returned (Some e) \<and> p' = p) \<or>
         (\<exists>u. issued s s' = map (\<lambda>c. (K8sDeleteCondition c, None)) (ps_Conditions a)
                          @ [(AlertsDeletePolicy (pst_PolicyID (p_Status p)), None),
                             (K8sUpdatePolicy (p\<lparr>p_Finalizers := removeString (p_Finalizers p) fin\<rparr>), u)] \<and>
            r = Returned u \<and> p' = p\<lparr>p_Finalizers := removeString (p_Finalizers p) fin\<rparr>))"
    using deletePolicy_trace[OF assms, where env = env and s = s] d by simp
  then consider
    (child) k e where "k < length ?cs"
      "issued s s' = ?ok (take k ?cs) @ [(K8sDeleteCondition (?cs ! k), Some e)]"
      "r = Returned (Some e)" "p' = p"
  | (remote) e where "issued s s' = ?ok ?cs @ [(AlertsDeletePolicy ?id, Some e)]"
      "r = Returned (Some e)" "p' = p"
  | (finished) u where
      "issued s s' = ?ok ?cs @ [(AlertsDeletePolicy ?id, None), (K8sUpdatePolicy ?q, u)]"
      "r = Returned u" "p' = ?q"
    by auto
  then have guarded: "(\<forall>u. (AlertsDeletePolicy (pst_PolicyID (p_Status p)), u) \<in> set (issued s s') \<longrightarrow>
           take (length (ps_Conditions a)) (issued s s') =
             map (\<lambda>c. (K8sDeleteCondition c, None)) (ps_Conditions a) \<and>
           issued s s' ! length (ps_Conditions a) =
             (AlertsDeletePolicy (pst_PolicyID (p_Status p)), u)) \<and>
        (\<forall>q u. (K8sUpdatePolicy q, u) \<in> set (issued s s') \<longrightarrow>
           q = p\<lparr>p_Finalizers := removeString (p_Finalizers p) fin\<rparr> \<and>
           r = Returned u \<and>
           issued s s' =
             map (\<lambda>c. (K8sDeleteCondition c, None)) (ps_Conditions a) @
             [(AlertsDeletePolicy (pst_PolicyID (p_Status p)), None), (K8sUpdatePolicy q, u)]) \<and>
        (p' \<noteq> p \<longrightarrow>
           (AlertsDeletePolicy (pst_PolicyID (p_Status p)), None) \<in> set (issued s s')) \<and>
        (\<forall>c e. (K8sDeleteCondition c, Some e) \<in> set (issued s s') \<longrightarrow>
           r = Returned (Some e) \<and> p' = p \<and>
           (\<exists>k < length (ps_Conditions a).
              c = ps_Conditions a ! k \<and>
              issued s s' =
                map (\<lambda>c. (K8sDeleteCondition c, None)) (take k (ps_Conditions a)) @
                [(K8sDeleteCondition c, Some e)]))"
  proof cases
    case child
    then show ?thesis by (auto simp: image_iff)
  next
    case remote
    then show ?thesis by (auto simp: image_iff nth_append)
  next
    case finished
    then show ?thesis by (auto simp: image_iff nth_append)
  qed
  have live: "((\<forall>j < length (ps_Conditions a).
            env_DeleteCondition env
              (calls s @ map (\<lambda>c. (K8sDeleteCondition c, None)) (take j (ps_Conditions a)))
              (ps_Conditions a ! j) = None) \<longrightarrow>
         (case env_DeletePolicy env
                (calls s @ map (\<lambda>c. (K8sDeleteCondition c, None)) (ps_Conditions a))
                (pst_PolicyID (p_Status p)) of
           Some e \<Rightarrow>
             issued s s' = map (\<lambda>c. (K8sDeleteCondition c, None)) (ps_Conditions a) @
               [(AlertsDeletePolicy (pst_PolicyID (p_Status p)), Some e)] \<and>
             r = Returned (Some e) \<and> p' = p
         | None \<Rightarrow>
             issued s s' = map (\<lambda>c. (K8sDeleteCondition c, None)) (ps_Conditions a) @
               [(AlertsDeletePolicy (pst_PolicyID (p_Status p)), None),
                (K8sUpdatePolicy (p\<lparr>p_Finalizers := removeString (p_Finalizers p) fin\<rparr>),
                 env_UpdatePolicy env
                   (calls s @ map (\<lambda>c. (K8sDeleteCondition c, None)) (ps_Conditions a) @
                      [(AlertsDeletePolicy (pst_PolicyID (p_Status p)), None)])
                   (p\<lparr>p_Finalizers := removeString (p_Finalizers p) fin\<rparr>))] \<and>
             r = Returned (env_UpdatePolicy env
                   (calls s @ map (\<lambda>c. (K8sDeleteCondition c, None)) (ps_Conditions a) @
                      [(AlertsDeletePolicy (pst_PolicyID (p_Status p)), None)])
                   (p\<lparr>p_Finalizers := removeString (p_Finalizers p) fin\<rparr>)) \<and>
             p' = p\<lparr>p_Finalizers := removeString (p_Finalizers p) fin\<rparr>))"
    using deletePolicy_children_deleted[OF assms _ d] by blast
  have abort: "(k < length (ps_Conditions a) \<and>
         (\<forall>j < k.
            env_DeleteCondition env
              (calls s @ map (\<lambda>c. (K8sDeleteCondition c, None)) (take j (ps_Conditions a)))
              (ps_Conditions a ! j) = None) \<and>
         env_DeleteCondition env
           (calls s @ map (\<lambda>c. (K8sDeleteCondition c, None)) (take k (ps_Conditions a)))
           (ps_Conditions a ! k) = Some e \<longrightarrow>
           issued s s' = map (\<lambda>c. (K8sDeleteCondition c, None)) (take k (ps_Conditions a)) @
             [(K8sDeleteCondition (ps_Conditions a ! k), Some e)] \<and>
           r = Returned (Some e) \<and> p' = p)"
    using deletePolicy_child_failure[OF assms _ _ _ d] by blast
  show ?thesis
    unfolding d prod.case
    apply (insert guarded shape live abort)
    apply (elim conjE)
    apply (intro conjI)
          apply assumption+
    done
qed

theorem deletion_protocol_order_witness:
  "containsString (p_Finalizers deletingPolicy) Policy_deleteFinalizer \<and>
   pst_PolicyID (p_Status deletingPolicy) \<noteq> 0 \<and>
   pst_AppliedSpec (p_Status deletingPolicy) =
     Some ((p_Spec testPolicy)\<lparr>ps_Conditions := [condA, condB]\<rparr>) \<and>
   env_DeleteCondition stubEnv
     (calls emptyState @ map (\<lambda>c. (K8sDeleteCondition c, None)) (take 0 [condA, condB]))
     ([condA, condB] ! 0) = None \<and>
   env_DeleteCondition stubEnv
     (calls emptyState @ map (\<lambda>c. (K8sDeleteCondition c, None)) (take 1 [condA, condB]))
     ([condA, condB] ! 1) = None \<and>
   env_DeletePolicy stubEnv
     (calls emptyState @ map (\<lambda>c. (K8sDeleteCondition c, None)) [condA, condB]) 333 = None \<and>
   deletePolicy stubEnv deletingPolicy Policy_deleteFinalizer emptyState =
     (Returned None, deletingPolicy\<lparr>p_Finalizers := []\<rparr>,
      \<lparr>calls = [(K8sDeleteCondition condA, None), (K8sDeleteCondition condB, None),
                (AlertsDeletePolicy 333, None),
                (K8sUpdatePolicy (deletingPolicy\<lparr>p_Finalizers := []\<rparr>), None)],
       logs = [Info ''Deleting condition'', Info ''Deleting condition'', Info ''Deleting policy'',
               Info ''New Relic Alert policy deleted, Removing finalizer'',
               Info ''All done with policy deletion'']\<rparr>) \<and>
   (1::nat) < length [condA, condB] \<and>
   env_DeleteCondition
     (stubEnv\<lparr>env_DeleteCondition := \<lambda>h c. if h = [] then None else Some (Error ''conflict'')\<rparr>)
     (calls emptyState @ map (\<lambda>c. (K8sDeleteCondition c, None)) (take 0 [condA, condB]))
     ([condA, condB] ! 0) = None \<and>
   env_DeleteCondition
     (stubEnv\<lparr>env_DeleteCondition := \<lambda>h c. if h = [] then None else Some (Error ''conflict'')\<rparr>)
     (calls emptyState @ map (\<lambda>c. (K8sDeleteCondition c, None)) (take 1 [condA, condB]))
     ([condA, condB] ! 1) = Some (Error ''conflict'') \<and>
   deletePolicy
     (stubEnv\<lparr>env_DeleteCondition := \<lambda>h c. if h = [] then None else Some (Error ''conflict'')\<rparr>)
     deletingPolicy Policy_deleteFinalizer emptyState =
     (Returned (Some (Error ''conflict'')), deletingPolicy,
      \<lparr>calls = [(K8sDeleteCondition condA, None),
                (K8sDeleteCondition condB, Some (Error ''conflict''))],
       logs = [Info ''Deleting condition'', Info ''Deleting condition'',
               ErrorLog (Some (Error ''conflict'')) ''error deleting condition resource'',
               ErrorLog (Some (Error ''conflict'')) ''error deleting condition resources'']\<rparr>)"
  using deletion_protocol_order
      [where p = deletingPolicy and fin = Policy_deleteFinalizer
         and a = "(p_Spec testPolicy)\<lparr>ps_Conditions := [condA, condB]\<rparr>"
         and env = stubEnv and s = emptyState and k = 0 and e = "Error ''conflict''"]
    deletion_protocol_order
      [where p = deletingPolicy and fin = Policy_deleteFinalizer
         and a = "(p_Spec testPolicy)\<lparr>ps_Conditions := [condA, condB]\<rparr>"
         and env = "stubEnv\<lparr>env_DeleteCondition :=
                      \<lambda>h c. if h = [] then None else Some (Error ''conflict'')\<rparr>"
         and s = emptyState and k = 1 and e = "Error ''conflict''"]
  by (simp add: deletingPolicy_def testPolicy_def condA_def condB_def testCondition_def
      stubEnv_def emptyState_def Policy_deleteFinalizer_def containsString_def removeString_def
      deletePolicy_def deleteCondition_def k8sDeleteCondition_def
      deleteNewRelicAlertPolicy_def alertsDeletePolicy_def k8sUpdatePolicy_def effect_defs Let_def)

section \<open>Credentials\<close>

lemma Policy_getAPIKeyOrSecret_effect:
  "Policy_getAPIKeyOrSecret env p s = (k, s') \<Longrightarrow>
     \<exists>evs lg. calls s' = calls s @ evs \<and> logs s' = logs s @ lg \<and>
       (\<forall>ev \<in> set evs. \<exists>key. fst ev = K8sGetSecret key)"
  by (auto simp: Policy_getAPIKeyOrSecret_def k8sGetSecret_def Let_def split: if_splits)

lemma Channel_getAPIKeyOrSecret_effect:
  "Channel_getAPIKeyOrSecret env c s = (k, s') \<Longrightarrow>
     \<exists>evs lg. calls s' = calls s @ evs \<and> logs s' = logs s @ lg \<and>
       (\<forall>ev \<in> set evs. \<exists>key. fst ev = K8sGetSecret key)"
  by (auto simp: Channel_getAPIKeyOrSecret_def k8sGetSecret_def Let_def
      split: if_splits sum.splits)

lemma secret_events_quiet:
  "\<forall>ev \<in> set evs. \<exists>key. fst ev = K8sGetSecret key \<Longrightarrow>
     remoteCalls evs = [] \<and> storeWrites evs = [] \<and> createCalls evs = []"
  by (induction evs) auto

text \<open>
  C9. The credential resolver of both reconcilers: the inline key when it is not
  empty; otherwise, with a secret reference set, one fetch of the referenced secret and
  the named data field of the answer, or the empty string when the fetch fails;
  with neither, the empty string and no call. When the resolver returns the empty
  string after a successful fetch of the entity, \<open>Reconcile\<close> returns the error
  "api key is blank" and the invocation holds no remote call and no store write.
\<close>

theorem credential_resolver_contract:
  "(ps_APIKey (p_Spec p) \<noteq> [] \<longrightarrow>
      Policy_getAPIKeyOrSecret env p s = (ps_APIKey (p_Spec p), s)) \<and>
   (ps_APIKey (p_Spec p) = [] \<and> ps_APIKeySecret (p_Spec p) \<noteq> noAPIKeySecret \<longrightarrow>
      (case Policy_getAPIKeyOrSecret env p s of
         (k, s') \<Rightarrow>
           issued s s' =
             [(K8sGetSecret (aks_Namespace (ps_APIKeySecret (p_Spec p)),
                             aks_Name (ps_APIKeySecret (p_Spec p))),
               errOf (env_GetSecret env (calls s)
                        (aks_Namespace (ps_APIKeySecret (p_Spec p)),
                         aks_Name (ps_APIKeySecret (p_Spec p)))))] \<and>
           k = (case env_GetSecret env (calls s)
                       (aks_Namespace (ps_APIKeySecret (p_Spec p)),
                        aks_Name (ps_APIKeySecret (p_Spec p))) of
                  Inl _ \<Rightarrow> []
                | Inr sec \<Rightarrow> secretField sec (aks_KeyName (ps_APIKeySecret (p_Spec p)))))) \<and>
   (ps_APIKey (p_Spec p) = [] \<and> ps_APIKeySecret (p_Spec p) = noAPIKeySecret \<longrightarrow>
      Policy_getAPIKeyOrSecret env p s = ([], s)) \<and>
   (chs_APIKey (ch_Spec c) \<noteq> [] \<longrightarrow>
      Channel_getAPIKeyOrSecret env c s = (chs_APIKey (ch_Spec c), s)) \<and>
   (chs_APIKey (ch_Spec c) = [] \<and> chs_APIKeySecret (ch_Spec c) \<noteq> noAPIKeySecret \<longrightarrow>
      (case Channel_getAPIKeyOrSecret env c s of
         (k, s') \<Rightarrow>
           issued s s' =
             [(K8sGetSecret (aks_Namespace (chs_APIKeySecret (ch_Spec c)),
                             aks_Name (chs_APIKeySecret (ch_Spec c))),
               errOf (env_GetSecret env (calls s)
                        (aks_Namespace (chs_APIKeySecret (ch_Spec c)),
                         aks_Name (chs_APIKeySecret (ch_Spec c)))))] \<and>
           k = (case env_GetSecret env (calls s)
                       (aks_Namespace (chs_APIKeySecret (ch_Spec c)),
                        aks_Name (chs_APIKeySecret (ch_Spec c))) of
                  Inl _ \<Rightarrow> []
                | Inr sec \<Rightarrow> secretField sec (aks_KeyName (chs_APIKeySecret (ch_Spec c)))))) \<and>
   (chs_APIKey (ch_Spec c) = [] \<and> chs_APIKeySecret (ch_Spec c) = noAPIKeySecret \<longrightarrow>
      Channel_getAPIKeyOrSecret env c s = ([], s)) \<and>
   (env_GetPolicy env (calls s) req = Inr p \<and>
    fst (Policy_getAPIKeyOrSecret env p
           (logInfo ''policy spec'' (logInfo ''Starting reconcile action''
              (emit (K8sGetPolicy req) None s)))) = [] \<longrightarrow>
      (case Policy_Reconcile env req s of
         (r, s') \<Rightarrow>
           r = Returned (Some (Error ''api key is blank'')) \<and>
           remoteCalls (issued s s') = [] \<and> storeWrites (issued s s') = [])) \<and>
   (env_GetAlertsChannel env (calls s) req = Inr c \<and>
    fst (Channel_getAPIKeyOrSecret env c
           (logInfo ''alertsChannel'' (logInfo ''Starting reconcile action''
              (emit (K8sGetAlertsChannel req) None s)))) = [] \<longrightarrow>
      (case Channel_Reconcile env req s of
         (r, s') \<Rightarrow>
           r = Returned (Some (Error ''api key is blank'')) \<and>
           remoteCalls (issued s s') = [] \<and> storeWrites (issued s s') = []))"
proof -
  have resolver_policy:
    "ps_APIKey (p_Spec p) \<noteq> [] \<longrightarrow>
      Policy_getAPIKeyOrSecret env p s = (ps_APIKey (p_Spec p), s)"
    "ps_APIKey (p_Spec p) = [] \<and> ps_APIKeySecret (p_Spec p) \<noteq> noAPIKeySecret \<longrightarrow>
      (case Policy_getAPIKeyOrSecret env p s of
         (k, s') \<Rightarrow>
           issued s s' =
             [(K8sGetSecret (aks_Namespace (ps_APIKeySecret (p_Spec p)),
                             aks_Name (ps_APIKeySecret (p_Spec p))),
               errOf (env_GetSecret env (calls s)
                        (aks_Namespace (ps_APIKeySecret (p_Spec p)),
                         aks_Name (ps_APIKeySecret (p_Spec p)))))] \<and>
           k = (case env_GetSecret env (calls s)
                       (aks_Namespace (ps_APIKeySecret (p_Spec p)),
                        aks_Name (ps_APIKeySecret (p_Spec p))) of
                  Inl _ \<Rightarrow> []
                | Inr sec \<Rightarrow> secretField sec (aks_KeyName (ps_APIKeySecret (p_Spec p)))))"
    "ps_APIKey (p_Spec p) = [] \<and> ps_APIKeySecret (p_Spec p) = noAPIKeySecret \<longrightarrow>
      Policy_getAPIKeyOrSecret env p s = ([], s)"
    by (auto simp: Policy_getAPIKeyOrSecret_def k8sGetSecret_def Let_def zeroSecret_def
        secretField_def split: sum.splits)
  have resolver_channel:
    "chs_APIKey (ch_Spec c) \<noteq> [] \<longrightarrow>
      Channel_getAPIKeyOrSecret env c s = (chs_APIKey (ch_Spec c), s)"
    "chs_APIKey (ch_Spec c) = [] \<and> chs_APIKeySecret (ch_Spec c) \<noteq> noAPIKeySecret \<longrightarrow>
      (case Channel_getAPIKeyOrSecret env c s of
         (k, s') \<Rightarrow>
           issued s s' =
             [(K8sGetSecret (aks_Namespace (chs_APIKeySecret (ch_Spec c)),
                             aks_Name (chs_APIKeySecret (ch_Spec c))),
               errOf (env_GetSecret env (calls s)
                        (aks_Namespace (chs_APIKeySecret (ch_Spec c)),
                         aks_Name (chs_APIKeySecret (ch_Spec c)))))] \<and>
           k = (case env_GetSecret env (calls s)
                       (aks_Namespace (chs_APIKeySecret (ch_Spec c)),
                        aks_Name (chs_APIKeySecret (ch_Spec c))) of
                  Inl _ \<Rightarrow> []
                | Inr sec \<Rightarrow> secretField sec (aks_KeyName (chs_APIKeySecret (ch_Spec c)))))"
    "chs_APIKey (ch_Spec c) = [] \<and> chs_APIKeySecret (ch_Spec c) = noAPIKeySecret \<longrightarrow>
      Channel_getAPIKeyOrSecret env c s = ([], s)"
    by (auto simp: Channel_getAPIKeyOrSecret_def k8sGetSecret_def Let_def
        split: sum.splits)
  have blank_policy:
    "env_GetPolicy env (calls s) req = Inr p \<and>
     fst (Policy_getAPIKeyOrSecret env p
           (logInfo ''policy spec'' (logInfo ''Starting reconcile action''
              (emit (K8sGetPolicy req) None s)))) = [] \<longrightarrow>
      (case Policy_Reconcile env req s of
         (r, s') \<Rightarrow>
           r = Returned (Some (Error ''api key is blank'')) \<and>
           remoteCalls (issued s s') = [] \<and> storeWrites (issued s s') = [])"
  proof (intro impI, elim conjE)
    let ?s2 = "logInfo ''policy spec'' (logInfo ''Starting reconcile action''
              (emit (K8sGetPolicy req) None s))"
    assume g: "env_GetPolicy env (calls s) req = Inr p"
      and k: "fst (Policy_getAPIKeyOrSecret env p ?s2) = []"
    obtain s3 where r: "Policy_getAPIKeyOrSecret env p ?s2 = ([], s3)"
      using k by (cases "Policy_getAPIKeyOrSecret env p ?s2") auto
    from Policy_getAPIKeyOrSecret_effect[OF r] obtain evs where
      evs: "calls s3 = calls ?s2 @ evs" "\<forall>ev \<in> set evs. \<exists>key. fst ev = K8sGetSecret key"
      by blast
    have "issued s s3 = (K8sGetPolicy req, None) # evs" using evs(1) by simp
    with secret_events_quiet[OF evs(2)]
    have "remoteCalls (issued s s3) = [] \<and> storeWrites (issued s s3) = []"
      by simp
    then show "case Policy_Reconcile env req s of
         (r, s') \<Rightarrow>
           r = Returned (Some (Error ''api key is blank'')) \<and>
           remoteCalls (issued s s') = [] \<and> storeWrites (issued s s') = []"
      using g r by (simp add: Policy_Reconcile_def k8sGetPolicy_def)
  qed
  have blank_channel:
    "env_GetAlertsChannel env (calls s) req = Inr c \<and>
     fst (Channel_getAPIKeyOrSecret env c
           (logInfo ''alertsChannel'' (logInfo ''Starting reconcile action''
              (emit (K8sGetAlertsChannel req) None s)))) = [] \<longrightarrow>
      (case Channel_Reconcile env req s of
         (r, s') \<Rightarrow>
           r = Returned (Some (Error ''api key is blank'')) \<and>
           remoteCalls (issued s s') = [] \<and> storeWrites (issued s s') = [])"
  proof (intro impI, elim conjE)
    let ?s2 = "logInfo ''alertsChannel'' (logInfo ''Starting reconcile action''
              (emit (K8sGetAlertsChannel req) None s))"
    assume g: "env_GetAlertsChannel env (calls s) req = Inr c"
      and k: "fst (Channel_getAPIKeyOrSecret env c ?s2) = []"
    obtain s3 where r: "Channel_getAPIKeyOrSecret env c ?s2 = ([], s3)"
      using k by (cases "Channel_getAPIKeyOrSecret env c ?s2") auto
    from Channel_getAPIKeyOrSecret_effect[OF r] obtain evs where
      evs: "calls s3 = calls ?s2 @ evs" "\<forall>ev \<in> set evs. \<exists>key. fst ev = K8sGetSecret key"
      by blast
    have "issued s s3 = (K8sGetAlertsChannel req, None) # evs" using evs(1) by simp
    with secret_events_quiet[OF evs(2)]
    have "remoteCalls (issued s s3) = [] \<and> storeWrites (issued s s3) = []"
      by simp
    then show "case Channel_Reconcile env req s of
         (r, s') \<Rightarrow>
           r = Returned (Some (Error ''api key is blank'')) \<and>
           remoteCalls (issued s s') = [] \<and> storeWrites (issued s s') = []"
      using g r by (simp add: Channel_Reconcile_def k8sGetAlertsChannel_def)
  qed
  from resolver_policy resolver_channel blank_policy blank_channel
  show ?thesis by (intro conjI)
qed

theorem credential_resolver_contract_witness:
  "ps_APIKey (p_Spec testPolicy) \<noteq> [] \<and>
   Policy_getAPIKeyOrSecret stubEnv testPolicy emptyState = (''112233'', emptyState) \<and>
   chs_APIKey (ch_Spec testChannel) \<noteq> [] \<and>
   Channel_getAPIKeyOrSecret stubEnv testChannel emptyState = (''112233'', emptyState) \<and>
   ps_APIKey (p_Spec secretPolicy) = [] \<and> ps_APIKeySecret (p_Spec secretPolicy) \<noteq> noAPIKeySecret \<and>
   chs_APIKey (ch_Spec secretChannel) = [] \<and>
   chs_APIKeySecret (ch_Spec secretChannel) \<noteq> noAPIKeySecret \<and>
   fst (Policy_getAPIKeyOrSecret
          (stubEnv\<lparr>env_GetSecret := \<lambda>_ _. Inr \<lparr>sec_Data = [(''api-key'', ''s3cr3t'')]\<rparr>\<rparr>)
          secretPolicy emptyState) = ''s3cr3t'' \<and>
   fst (Channel_getAPIKeyOrSecret
          (stubEnv\<lparr>env_GetSecret := \<lambda>_ _. Inr \<lparr>sec_Data = [(''api-key'', ''s3cr3t'')]\<rparr>\<rparr>)
          secretChannel emptyState) = ''s3cr3t'' \<and>
   fst (Policy_getAPIKeyOrSecret stubEnv secretPolicy emptyState) = [] \<and>
   fst (Channel_getAPIKeyOrSecret stubEnv secretChannel emptyState) = [] \<and>
   Policy_Reconcile
     (stubEnv\<lparr>env_GetPolicy := \<lambda>_ _. Inr secretPolicy,
              env_GetAlertsChannel := \<lambda>_ _. Inr secretChannel\<rparr>) testRequest emptyState =
     (Returned (Some (Error ''api key is blank'')),
      \<lparr>calls = [(K8sGetPolicy testRequest, None),
                (K8sGetSecret (''default'', ''nr-secret''), Some (Error ''secret not found''))],
       logs = [Info ''Starting reconcile action'', Info ''policy spec'',
               ErrorLog (Some (Error ''secret not found'')) ''Failed to retrieve secret'']\<rparr>) \<and>
   Channel_Reconcile
     (stubEnv\<lparr>env_GetPolicy := \<lambda>_ _. Inr secretPolicy,
              env_GetAlertsChannel := \<lambda>_ _. Inr secretChannel\<rparr>) testRequest emptyState =
     (Returned (Some (Error ''api key is blank'')),
      \<lparr>calls = [(K8sGetAlertsChannel testRequest, None),
                (K8sGetSecret (''default'', ''nr-secret''), Some (Error ''secret not found''))],
       logs = [Info ''Starting reconcile action'', Info ''alertsChannel'',
               ErrorLog (Some (Error ''secret not found'')) ''Failed to retrieve secret'']\<rparr>)"
  using credential_resolver_contract
      [where p = testPolicy and c = testChannel and env = stubEnv and s = emptyState
         and req = testRequest]
    credential_resolver_contract
      [where p = secretPolicy and c = secretChannel
         and env = "stubEnv\<lparr>env_GetSecret := \<lambda>_ _. Inr \<lparr>sec_Data = [(''api-key'', ''s3cr3t'')]\<rparr>\<rparr>"
         and s = emptyState and req = testRequest]
    credential_resolver_contract
      [where p = secretPolicy and c = secretChannel
         and env = "stubEnv\<lparr>env_GetPolicy := \<lambda>_ _. Inr secretPolicy,
                           env_GetAlertsChannel := \<lambda>_ _. Inr secretChannel\<rparr>"
         and s = emptyState and req = testRequest]
  by (simp add: testPolicy_def testChannel_def secretPolicy_def secretChannel_def
      testSecretRef_def noAPIKeySecret_def stubEnv_def emptyState_def testRequest_def
      Policy_getAPIKeyOrSecret_def Channel_getAPIKeyOrSecret_def k8sGetSecret_def
      Policy_Reconcile_def Channel_Reconcile_def k8sGetPolicy_def k8sGetAlertsChannel_def
      secretField_def zeroSecret_def effect_defs Let_def)

section \<open>The convergence short-circuit\<close>










section \<open>Traces of the create and update paths\<close>

lemma createCondition_effect:
  "createCondition env p c s = (r, c', s') \<Longrightarrow>
     \<exists>c2 lg. calls s' = calls s @ [(K8sCreateCondition c2, r)] \<and> logs s' = logs s @ lg"
  by (auto simp: createCondition_def k8sCreateCondition_def Let_def split: sum.splits)

lemma conditionBody_effect:
  "conditionBody env applied i c p s = (r, p', s') \<Longrightarrow>
     \<exists>evs lg. calls s' = calls s @ evs \<and> logs s' = logs s @ lg \<and> length evs \<le> 1 \<and>
       (\<forall>ev \<in> set evs. \<exists>c. fst ev = K8sCreateCondition c \<or> fst ev = K8sUpdateCondition c)"
proof -
  assume a: "conditionBody env applied i c p s = (r, p', s')"
  show ?thesis
  proof (cases "c_ResourceVersion c = []")
    case True
    obtain r1 c1 s1 where cc: "createCondition env p c (logInfo ''createOrUpdate condition'' s) = (r1, c1, s1)"
      by (cases "createCondition env p c (logInfo ''createOrUpdate condition'' s)")
    from createCondition_effect[OF cc] obtain c2 lg where
      "calls s1 = calls s @ [(K8sCreateCondition c2, r1)]" "logs s1 = logs s @ Info ''createOrUpdate condition'' # lg"
      by auto
    then show ?thesis using a True cc
      by (cases r1) (auto simp: conditionBody_def Let_def)
  next
    case False
    then show ?thesis using a
      by (auto simp: conditionBody_def k8sUpdateCondition_def Let_def split: if_splits)
  qed
qed

lemma createOrUpdateConditions_effect:
  "createOrUpdateConditions env p s = (r, p', s') \<Longrightarrow>
     \<exists>evs lg. calls s' = calls s @ evs \<and> logs s' = logs s @ lg \<and> length evs \<le> 1 \<and>
       (\<forall>ev \<in> set evs. \<exists>c. fst ev = K8sCreateCondition c \<or> fst ev = K8sUpdateCondition c)"
proof -
  assume a: "createOrUpdateConditions env p s = (r, p', s')"
  show ?thesis
  proof (cases "pst_AppliedSpec (p_Status p)")
    case None
    with a show ?thesis by (simp add: createOrUpdateConditions_def)
  next
    case (Some ap)
    show ?thesis
    proof (cases "ps_Conditions (p_Spec p) = ps_Conditions ap")
      case True
      with a Some show ?thesis by (auto simp: createOrUpdateConditions_def)
    next
      case False
      show ?thesis
      proof (cases "ps_Conditions (p_Spec p)")
        case Nil
        with a Some False show ?thesis by (auto simp: createOrUpdateConditions_def)
      next
        case (Cons c cs)
        with a Some False have "conditionBody env (ps_Conditions ap) 0 c p s = (r, p', s')"
          by (simp add: createOrUpdateConditions_def)
        from conditionBody_effect[OF this] show ?thesis .
      qed
    qed
  qed
qed

lemma createPolicy_trace:
  assumes "createPolicy env p s = (r, p', s')"
  shows "(\<exists>e lg. r = Returned (Some e) \<and>
            calls s' = calls s @ [(AlertsCreatePolicy (env_APIPolicy env (p_Spec p)), Some e)] \<and>
            logs s' = logs s @ lg \<and>
            ErrorLog (Some e) ''failed to create policy via New Relic API'' \<in> set lg) \<or>
         (\<exists>evs lg.
            calls s' = calls s @ (AlertsCreatePolicy (env_APIPolicy env (p_Spec p)), None) # evs \<and>
            logs s' = logs s @ lg \<and> (\<forall>ev \<in> set evs. isStoreWrite (fst ev)))"
proof (cases "env_CreatePolicy env (calls s) (env_APIPolicy env (p_Spec p))")
  case (Inl e)
  with assms show ?thesis by (auto simp: createPolicy_def alertsCreatePolicy_def Let_def)
next
  case (Inr created)
  let ?s2 = "emit (AlertsCreatePolicy (env_APIPolicy env (p_Spec p))) None
               (logInfo ''Creating policy'' s)"
  let ?p1 = "p\<lparr>p_Status := (p_Status p)\<lparr>pst_PolicyID := ap_ID created\<rparr>\<rparr>"
  obtain rc p2 s3 where cc: "createOrUpdateConditions env ?p1 ?s2 = (rc, p2, s3)"
    by (cases "createOrUpdateConditions env ?p1 ?s2")
  from createOrUpdateConditions_effect[OF cc] obtain evs lg where
    e: "calls s3 = calls ?s2 @ evs" "logs s3 = logs ?s2 @ lg"
      "\<forall>ev \<in> set evs. \<exists>c. fst ev = K8sCreateCondition c \<or> fst ev = K8sUpdateCondition c"
    by blast
  have w: "\<forall>ev \<in> set evs. isStoreWrite (fst ev)" using e(3) by auto
  have "\<exists>evs lg.
            calls s' = calls s @ (AlertsCreatePolicy (env_APIPolicy env (p_Spec p)), None) # evs \<and>
            logs s' = logs s @ lg \<and> (\<forall>ev \<in> set evs. isStoreWrite (fst ev))"
  proof (cases rc)
    case (Panicked msg)
    with assms Inr cc e w show ?thesis
      by (auto simp: createPolicy_def alertsCreatePolicy_def Let_def)
  next
    case (Returned eo)
    show ?thesis
    proof (cases eo)
      case (Some err)
      with Returned assms Inr cc e w show ?thesis
        by (auto simp: createPolicy_def alertsCreatePolicy_def Let_def)
    next
      case None
      let ?p3 = "p2\<lparr>p_Status := (p_Status p2)\<lparr>pst_AppliedSpec := Some (p_Spec p2)\<rparr>\<rparr>"
      let ?u = "env_UpdatePolicy env (calls s3) ?p3"
      have "calls s' = calls s @ (AlertsCreatePolicy (env_APIPolicy env (p_Spec p)), None)
                          # (evs @ [(K8sUpdatePolicy ?p3, ?u)])"
        and "\<exists>lg. logs s' = logs s @ lg"
        using None Returned assms Inr cc e
        by (auto simp: createPolicy_def alertsCreatePolicy_def k8sUpdatePolicy_def Let_def
            split: option.splits)
      moreover have "\<forall>ev \<in> set (evs @ [(K8sUpdatePolicy ?p3, ?u)]). isStoreWrite (fst ev)"
        using w by auto
      ultimately show ?thesis by blast
    qed
  qed
  then show ?thesis by blast
qed

lemma updatePolicy_trace:
  assumes "updatePolicy env p s = (r, p', s')"
  shows "(\<exists>e lg. r = Returned (Some e) \<and>
            calls s' = calls s @
              [(AlertsUpdatePolicy ((env_APIPolicy env (p_Spec p))\<lparr>ap_ID := pst_PolicyID (p_Status p)\<rparr>),
                Some e)] \<and>
            logs s' = logs s @ lg \<and>
            ErrorLog (Some e) ''failed to update policy via New Relic API'' \<in> set lg) \<or>
         (\<exists>evs lg.
            calls s' = calls s @
              (AlertsUpdatePolicy ((env_APIPolicy env (p_Spec p))\<lparr>ap_ID := pst_PolicyID (p_Status p)\<rparr>),
               None) # evs \<and>
            logs s' = logs s @ lg \<and> (\<forall>ev \<in> set evs. isStoreWrite (fst ev)))"
proof (cases "env_UpdatePolicy_remote env (calls s)
                ((env_APIPolicy env (p_Spec p))\<lparr>ap_ID := pst_PolicyID (p_Status p)\<rparr>)")
  case (Inl e)
  with assms show ?thesis by (auto simp: updatePolicy_def alertsUpdatePolicy_def Let_def)
next
  case (Inr updated)
  let ?a = "(env_APIPolicy env (p_Spec p))\<lparr>ap_ID := pst_PolicyID (p_Status p)\<rparr>"
  let ?s2 = "emit (AlertsUpdatePolicy ?a) None (logInfo ''updating policy'' s)"
  obtain rc p2 s3 where cc: "createOrUpdateConditions env p ?s2 = (rc, p2, s3)"
    by (cases "createOrUpdateConditions env p ?s2")
  from createOrUpdateConditions_effect[OF cc] obtain evs lg where
    e: "calls s3 = calls ?s2 @ evs" "logs s3 = logs ?s2 @ lg"
      "\<forall>ev \<in> set evs. \<exists>c. fst ev = K8sCreateCondition c \<or> fst ev = K8sUpdateCondition c"
    by blast
  have w: "\<forall>ev \<in> set evs. isStoreWrite (fst ev)" using e(3) by auto
  have "\<exists>evs lg. calls s' = calls s @ (AlertsUpdatePolicy ?a, None) # evs \<and>
            logs s' = logs s @ lg \<and> (\<forall>ev \<in> set evs. isStoreWrite (fst ev))"
  proof (cases rc)
    case (Panicked msg)
    with assms Inr cc e w show ?thesis
      by (auto simp: updatePolicy_def alertsUpdatePolicy_def Let_def)
  next
    case (Returned eo)
    show ?thesis
    proof (cases eo)
      case (Some err)
      with Returned assms Inr cc e w show ?thesis
        by (auto simp: updatePolicy_def alertsUpdatePolicy_def Let_def)
    next
      case None
      let ?p3 = "p2\<lparr>p_Status := \<lparr>pst_AppliedSpec = Some (p_Spec p2),
                                    pst_PolicyID = ap_ID updated\<rparr>\<rparr>"
      let ?u = "env_UpdatePolicy env (calls s3) ?p3"
      have "calls s' = calls s @ (AlertsUpdatePolicy ?a, None)
                          # (evs @ [(K8sUpdatePolicy ?p3, ?u)])"
        and "\<exists>lg. logs s' = logs s @ lg"
        using None Returned assms Inr cc e
        by (auto simp: updatePolicy_def alertsUpdatePolicy_def k8sUpdatePolicy_def Let_def
            split: option.splits)
      moreover have "\<forall>ev \<in> set (evs @ [(K8sUpdatePolicy ?p3, ?u)]). isStoreWrite (fst ev)"
        using w by auto
      ultimately show ?thesis by blast
    qed
  qed
  then show ?thesis by blast
qed

lemma adoptExisting_effect:
  "adoptExisting ps p s = (p', s') \<Longrightarrow>
     calls s' = calls s \<and> (\<exists>lg. logs s' = logs s @ lg) \<and> p_Spec p' = p_Spec p \<and>
     pst_PolicyID (p_Status p') =
       (case find (\<lambda>q. ap_Name q = ps_Name (p_Spec p)) ps of
          None \<Rightarrow> pst_PolicyID (p_Status p) | Some q \<Rightarrow> ap_ID q)"
  by (induction ps) (auto split: if_splits)

lemma checkForExistingPolicy_effect:
  assumes "checkForExistingPolicy env p s = (p', s')"
  shows "p_Spec p' = p_Spec p"
    and "pst_PolicyID (p_Status p) \<noteq> 0 \<Longrightarrow> p' = p \<and> s' = s"
    and "pst_PolicyID (p_Status p) = 0 \<Longrightarrow>
           calls s' = calls s @
             [(AlertsListPolicies (ps_Name (p_Spec p)),
               errOf (env_ListPolicies env (calls s) (ps_Name (p_Spec p))))] \<and>
           (\<exists>lg. logs s' = logs s @ lg \<and>
              (\<forall>e. env_ListPolicies env (calls s) (ps_Name (p_Spec p)) = Inl e \<longrightarrow>
                 ErrorLog (Some e) ''failed to get list of NRQL policys from New Relic API''
                   \<in> set lg)) \<and>
           pst_PolicyID (p_Status p') =
             (case env_ListPolicies env (calls s) (ps_Name (p_Spec p)) of
                Inl _ \<Rightarrow> 0
              | Inr ps \<Rightarrow>
                  (case find (\<lambda>q. ap_Name q = ps_Name (p_Spec p)) ps of
                     None \<Rightarrow> 0 | Some q \<Rightarrow> ap_ID q))"
proof -
  show "p_Spec p' = p_Spec p"
    using assms
    by (auto simp: checkForExistingPolicy_def alertsListPolicies_def Let_def
        split: if_splits sum.splits dest: adoptExisting_effect)
  show "p' = p \<and> s' = s" if "pst_PolicyID (p_Status p) \<noteq> 0"
    using assms that by (simp add: checkForExistingPolicy_def)
  show "calls s' = calls s @
             [(AlertsListPolicies (ps_Name (p_Spec p)),
               errOf (env_ListPolicies env (calls s) (ps_Name (p_Spec p))))] \<and>
           (\<exists>lg. logs s' = logs s @ lg \<and>
              (\<forall>e. env_ListPolicies env (calls s) (ps_Name (p_Spec p)) = Inl e \<longrightarrow>
                 ErrorLog (Some e) ''failed to get list of NRQL policys from New Relic API''
                   \<in> set lg)) \<and>
           pst_PolicyID (p_Status p') =
             (case env_ListPolicies env (calls s) (ps_Name (p_Spec p)) of
                Inl _ \<Rightarrow> 0
              | Inr ps \<Rightarrow>
                  (case find (\<lambda>q. ap_Name q = ps_Name (p_Spec p)) ps of
                     None \<Rightarrow> 0 | Some q \<Rightarrow> ap_ID q))"
    if z: "pst_PolicyID (p_Status p) = 0"
  proof (cases "env_ListPolicies env (calls s) (ps_Name (p_Spec p))")
    case (Inl e)
    with assms z show ?thesis
      by (auto simp: checkForExistingPolicy_def alertsListPolicies_def Let_def)
  next
    case (Inr ps)
    let ?s2 = "emit (AlertsListPolicies (ps_Name (p_Spec p))) None
                 (logInfo ''Checking for existing policy'' s)"
    from assms z Inr have "adoptExisting ps p ?s2 = (p', s')"
      by (simp add: checkForExistingPolicy_def alertsListPolicies_def Let_def)
    from adoptExisting_effect[OF this] z Inr show ?thesis by (auto split: option.splits)
  qed
qed

lemma deletePolicy_effect:
  assumes "deletePolicy env p fin s = (r, p', s')"
  shows "\<exists>evs lg. calls s' = calls s @ evs \<and> logs s' = logs s @ lg \<and>
      (\<forall>ev \<in> set evs.
         (\<exists>c. fst ev = K8sDeleteCondition c) \<or> (\<exists>i. fst ev = AlertsDeletePolicy i) \<or>
         (\<exists>q. fst ev = K8sUpdatePolicy q)) \<and>
      (\<forall>i e. (AlertsDeletePolicy i, Some e) \<in> set evs \<longrightarrow>
         r = Returned (Some e) \<and> (\<forall>q u. (K8sUpdatePolicy q, u) \<notin> set evs) \<and>
         ErrorLog (Some e) ''Failed to delete Alert Policy via New Relic API'' \<in> set lg)"
proof (cases "containsString (p_Finalizers p) fin \<and> pst_PolicyID (p_Status p) \<noteq> 0")
  case False
  with assms have "calls s' = calls s @ []" "\<exists>lg. logs s' = logs s @ lg"
    by (auto simp: deletePolicy_def Let_def split: if_splits)
  then show ?thesis by fastforce
next
  case True
  show ?thesis
  proof (cases "pst_AppliedSpec (p_Status p)")
    case None
    with assms True have "calls s' = calls s @ []" "logs s' = logs s @ []"
      by (auto simp: deletePolicy_def)
    then show ?thesis by fastforce
  next
    case (Some a)
    obtain rc s1 where dc: "deleteConditions env (ps_Conditions a) s = (rc, s1)"
      by (cases "deleteConditions env (ps_Conditions a) s")
    from deleteConditions_trace[OF dc] obtain lg1 where
      tr: "case rc of
             None \<Rightarrow> calls s1 = calls s @ map (\<lambda>c. (K8sDeleteCondition c, None)) (ps_Conditions a)
           | Some e \<Rightarrow>
               (\<exists>k < length (ps_Conditions a).
                  calls s1 = calls s @ map (\<lambda>c. (K8sDeleteCondition c, None))
                                       (take k (ps_Conditions a))
                               @ [(K8sDeleteCondition (ps_Conditions a ! k), Some e)])"
      and l1: "logs s1 = logs s @ lg1" by blast
    show ?thesis
    proof (cases rc)
      case (Some e)
      with tr obtain k where
        "calls s1 = calls s @ map (\<lambda>c. (K8sDeleteCondition c, None)) (take k (ps_Conditions a))
                               @ [(K8sDeleteCondition (ps_Conditions a ! k), Some e)]" by auto
      moreover have "s' = s1" using assms True \<open>pst_AppliedSpec (p_Status p) = Some a\<close> dc Some
        by (simp add: deletePolicy_def)
      ultimately show ?thesis using l1 by fastforce
    next
      case None
      with tr have c1: "calls s1 = calls s @ map (\<lambda>c. (K8sDeleteCondition c, None)) (ps_Conditions a)"
        by simp
      let ?id = "pst_PolicyID (p_Status p)"
      let ?d = "env_DeletePolicy env (calls s1) ?id"
      show ?thesis
      proof (cases ?d)
        case (Some e)
        have "calls s' = calls s @ (map (\<lambda>c. (K8sDeleteCondition c, None)) (ps_Conditions a)
                 @ [(AlertsDeletePolicy ?id, Some e)])"
          and "\<exists>lg. logs s' = logs s @ lg \<and>
                 ErrorLog (Some e) ''Failed to delete Alert Policy via New Relic API'' \<in> set lg"
          and "r = Returned (Some e)"
          using assms True \<open>pst_AppliedSpec (p_Status p) = Some a\<close> dc None c1 l1 Some
          by (auto simp: deletePolicy_def deleteNewRelicAlertPolicy_def alertsDeletePolicy_def
              Let_def)
        then show ?thesis by fastforce
      next
        case None
        let ?q = "p\<lparr>p_Finalizers := removeString (p_Finalizers p) fin\<rparr>"
        have "\<exists>u. calls s' = calls s @ (map (\<lambda>c. (K8sDeleteCondition c, None)) (ps_Conditions a)
                 @ [(AlertsDeletePolicy ?id, None), (K8sUpdatePolicy ?q, u)])"
          and "\<exists>lg. logs s' = logs s @ lg"
          using assms True \<open>pst_AppliedSpec (p_Status p) = Some a\<close> dc \<open>rc = None\<close> c1 l1 None
          by (auto simp: deletePolicy_def deleteNewRelicAlertPolicy_def alertsDeletePolicy_def
              k8sUpdatePolicy_def Let_def split: option.splits)
        then show ?thesis by fastforce
      qed
    qed
  qed
qed

section \<open>Traces of a whole invocation\<close>

lemma Policy_Reconcile_run:
  assumes "Policy_Reconcile env req s = (r, s')"
  shows "(\<exists>pre lg. calls s' = calls s @ pre \<and> logs s' = logs s @ lg \<and>
            (\<forall>ev \<in> set pre. \<not> isRemote (fst ev) \<and> \<not> isStoreWrite (fst ev))) \<or>
         (\<exists>p pre lg s4. env_GetPolicy env (calls s) req = Inr p \<and>
            calls s4 = calls s @ pre \<and> logs s4 = logs s @ lg \<and>
            (\<forall>ev \<in> set pre. \<not> isRemote (fst ev) \<and> \<not> isStoreWrite (fst ev)) \<and>
            Policy_reconcileFetched env p s4 = (r, s'))"
proof (cases "env_GetPolicy env (calls s) req")
  case (Inl e)
  with assms have "calls s' = calls s @ [(K8sGetPolicy req, Some e)]" "\<exists>lg. logs s' = logs s @ lg"
    by (auto simp: Policy_Reconcile_def k8sGetPolicy_def Let_def split: if_splits)
  then show ?thesis by fastforce
next
  case (Inr p)
  let ?s2 = "logInfo ''policy spec'' (logInfo ''Starting reconcile action''
              (emit (K8sGetPolicy req) None s))"
  obtain k s3 where key: "Policy_getAPIKeyOrSecret env p ?s2 = (k, s3)"
    by (cases "Policy_getAPIKeyOrSecret env p ?s2")
  from Policy_getAPIKeyOrSecret_effect[OF key] obtain evs lg where
    e: "calls s3 = calls ?s2 @ evs" "logs s3 = logs ?s2 @ lg"
      "\<forall>ev \<in> set evs. \<exists>key. fst ev = K8sGetSecret key" by blast
  have c3: "calls s3 = calls s @ ((K8sGetPolicy req, None) # evs)" using e(1) by simp
  have l3: "logs s3 = logs s @ ([Info ''Starting reconcile action'', Info ''policy spec''] @ lg)"
    using e(2) by simp
  have q3: "\<forall>ev \<in> set ((K8sGetPolicy req, None) # evs).
              \<not> isRemote (fst ev) \<and> \<not> isStoreWrite (fst ev)"
    using e(3) by auto
  show ?thesis
  proof (cases "k = []")
    case True
    with assms Inr key have "s' = s3" by (simp add: Policy_Reconcile_def k8sGetPolicy_def)
    with c3 l3 q3 show ?thesis by blast
  next
    case False
    let ?u = "env_AlertClientFunc env (calls s3) k (ps_Region (p_Spec p))"
    let ?s4 = "emit (AlertClientFunc k (ps_Region (p_Spec p))) ?u s3"
    have c4: "calls ?s4 = calls s @ ((K8sGetPolicy req, None) # evs @
                [(AlertClientFunc k (ps_Region (p_Spec p)), ?u)])"
      using c3 by simp
    have l4: "logs ?s4 = logs s @ ([Info ''Starting reconcile action'', Info ''policy spec''] @ lg)"
      using l3 by simp
    have q4: "\<forall>ev \<in> set ((K8sGetPolicy req, None) # evs @
                [(AlertClientFunc k (ps_Region (p_Spec p)), ?u)]).
              \<not> isRemote (fst ev) \<and> \<not> isStoreWrite (fst ev)"
      using e(3) by auto
    show ?thesis
    proof (cases ?u)
      case (Some err)
      with assms Inr key False
      have "s' = logError (Some err) ''Failed to create AlertsClient'' ?s4"
        by (simp add: Policy_Reconcile_def k8sGetPolicy_def newAlertsClient_def Let_def)
      then have "calls s' = calls ?s4" "logs s' = logs s @
          ([Info ''Starting reconcile action'', Info ''policy spec''] @ lg @
           [ErrorLog (Some err) ''Failed to create AlertsClient''])"
        using l4 by simp_all
      with c4 q4 show ?thesis by metis
    next
      case None
      with assms Inr key False have "Policy_reconcileFetched env p ?s4 = (r, s')"
        by (simp add: Policy_Reconcile_def k8sGetPolicy_def newAlertsClient_def Let_def)
      with Inr c4 l4 q4 show ?thesis by blast
    qed
  qed
qed

lemma Policy_reconcileFetched_trace:
  assumes "Policy_reconcileFetched env p s = (r, s')"
  shows "\<exists>evs lg. calls s' = calls s @ evs \<and> logs s' = logs s @ lg \<and>
      (\<forall>a e. (AlertsCreatePolicy a, Some e) \<in> set evs \<longrightarrow>
         r = Returned (Some e) \<and> storeWrites evs = [] \<and>
         ErrorLog (Some e) ''failed to create policy via New Relic API'' \<in> set lg) \<and>
      (\<forall>a e. (AlertsUpdatePolicy a, Some e) \<in> set evs \<longrightarrow>
         r = Returned (Some e) \<and> storeWrites evs = [] \<and>
         ErrorLog (Some e) ''failed to update policy via New Relic API'' \<in> set lg) \<and>
      (\<forall>i e. (AlertsDeletePolicy i, Some e) \<in> set evs \<longrightarrow>
         r = Returned (Some e) \<and> (\<forall>q u. (K8sUpdatePolicy q, u) \<notin> set evs) \<and>
         ErrorLog (Some e) ''Failed to delete Alert Policy via New Relic API'' \<in> set lg) \<and>
      (\<forall>n e. (AlertsListPolicies n, Some e) \<in> set evs \<longrightarrow>
         ErrorLog (Some e) ''failed to get list of NRQL policys from New Relic API'' \<in> set lg \<and>
         (\<exists>a u. (AlertsCreatePolicy a, u) \<in> set evs))"
proof (cases "p_DeletionTimestamp p")
  case (Some ts)
  obtain p' where "deletePolicy env p Policy_deleteFinalizer s = (r, p', s')"
    using assms Some by (auto simp: Policy_reconcileFetched_def split: prod.splits)
  from deletePolicy_effect[OF this] obtain evs lg where
    d: "calls s' = calls s @ evs" "logs s' = logs s @ lg"
      "\<forall>ev \<in> set evs.
         (\<exists>c. fst ev = K8sDeleteCondition c) \<or> (\<exists>i. fst ev = AlertsDeletePolicy i) \<or>
         (\<exists>q. fst ev = K8sUpdatePolicy q)"
      "\<forall>i e. (AlertsDeletePolicy i, Some e) \<in> set evs \<longrightarrow>
         r = Returned (Some e) \<and> (\<forall>q u. (K8sUpdatePolicy q, u) \<notin> set evs) \<and>
         ErrorLog (Some e) ''Failed to delete Alert Policy via New Relic API'' \<in> set lg"
    by blast
  have "(AlertsCreatePolicy a, u) \<notin> set evs" "(AlertsUpdatePolicy a, u) \<notin> set evs"
    "(AlertsListPolicies n, u) \<notin> set evs" for a u n
    using d(3) by fastforce+
  with d(1,2,4) show ?thesis by blast
next
  case None
  let ?p = "if \<not> containsString (p_Finalizers p) Policy_deleteFinalizer
            then p\<lparr>p_Finalizers := p_Finalizers p @ [Policy_deleteFinalizer]\<rparr> else p"
  have spec: "p_Spec ?p = p_Spec p" and st: "p_Status ?p = p_Status p" by simp_all
  show ?thesis
  proof (cases "Some (p_Spec p) = pst_AppliedSpec (p_Status p)")
    case True
    with assms None have "calls s' = calls s @ []" "logs s' = logs s @ []"
      by (auto simp: Policy_reconcileFetched_def Let_def spec st)
    then show ?thesis by fastforce
  next
    case False
    let ?s1 = "logInfo ''Reconciling'' s"
    obtain p1 s2 where chk: "checkForExistingPolicy env ?p ?s1 = (p1, s2)"
      by (cases "checkForExistingPolicy env ?p ?s1")
    note ce = checkForExistingPolicy_effect[OF chk, unfolded spec st]
    let ?L = "(AlertsListPolicies (ps_Name (p_Spec p)),
               errOf (env_ListPolicies env (calls s) (ps_Name (p_Spec p))))"
    obtain pre lgp l where pre:
      "calls s2 = calls s @ pre" "logs s2 = logs s @ lgp"
      "pre = [] \<or> pre = [(AlertsListPolicies (ps_Name (p_Spec p)), l)]"
      "\<forall>e. l = Some e \<and> pre \<noteq> [] \<longrightarrow>
         pst_PolicyID (p_Status p1) = 0 \<and>
         ErrorLog (Some e) ''failed to get list of NRQL policys from New Relic API'' \<in> set lgp"
    proof (cases "pst_PolicyID (p_Status p) = 0")
      case True
      from ce(3)[OF True] obtain lg where
        "calls s2 = calls s @ [?L]" "logs s2 = logs s @ (Info ''Reconciling'' # lg)"
        "\<forall>e. env_ListPolicies env (calls s) (ps_Name (p_Spec p)) = Inl e \<longrightarrow>
           ErrorLog (Some e) ''failed to get list of NRQL policys from New Relic API'' \<in> set lg"
        "pst_PolicyID (p_Status p1) =
           (case env_ListPolicies env (calls s) (ps_Name (p_Spec p)) of
              Inl _ \<Rightarrow> 0
            | Inr ps \<Rightarrow>
                (case find (\<lambda>q. ap_Name q = ps_Name (p_Spec p)) ps of
                   None \<Rightarrow> 0 | Some q \<Rightarrow> ap_ID q))"
        by auto
      then show ?thesis
        by (intro that[of "[?L]" "Info ''Reconciling'' # lg" "snd ?L"])
           (auto split: sum.splits)
    next
      case False
      from ce(2)[OF False] have "calls s2 = calls s @ []" "logs s2 = logs s @ [Info ''Reconciling'']"
        by simp_all
      then show ?thesis by (intro that[of "[]" "[Info ''Reconciling'']" None]) auto
    qed
    let ?P = "\<lambda>evs lg.
      (\<forall>a e. (AlertsCreatePolicy a, Some e) \<in> set evs \<longrightarrow>
         r = Returned (Some e) \<and> storeWrites evs = [] \<and>
         ErrorLog (Some e) ''failed to create policy via New Relic API'' \<in> set lg) \<and>
      (\<forall>a e. (AlertsUpdatePolicy a, Some e) \<in> set evs \<longrightarrow>
         r = Returned (Some e) \<and> storeWrites evs = [] \<and>
         ErrorLog (Some e) ''failed to update policy via New Relic API'' \<in> set lg) \<and>
      (\<forall>i e. (AlertsDeletePolicy i, Some e) \<in> set evs \<longrightarrow>
         r = Returned (Some e) \<and> (\<forall>q u. (K8sUpdatePolicy q, u) \<notin> set evs) \<and>
         ErrorLog (Some e) ''Failed to delete Alert Policy via New Relic API'' \<in> set lg) \<and>
      (\<forall>n e. (AlertsListPolicies n, Some e) \<in> set evs \<longrightarrow>
         ErrorLog (Some e) ''failed to get list of NRQL policys from New Relic API'' \<in> set lg \<and>
         (\<exists>a u. (AlertsCreatePolicy a, u) \<in> set evs))"
    have conclude: ?thesis
      if "calls s' = calls s @ evs" "logs s' = logs s @ lg" "?P evs lg" for evs lg
      using that by blast
    show ?thesis
    proof (cases "pst_PolicyID (p_Status p1) \<noteq> 0")
      case True
      obtain p2 where "updatePolicy env p1 s2 = (r, p2, s')"
        using assms None False chk True
        by (auto simp: Policy_reconcileFetched_def Let_def spec st split: prod.splits)
      from updatePolicy_trace[OF this]
      consider (failed) e lg2 a where "r = Returned (Some e)"
          "calls s' = calls s2 @ [(AlertsUpdatePolicy a, Some e)]" "logs s' = logs s2 @ lg2"
          "ErrorLog (Some e) ''failed to update policy via New Relic API'' \<in> set lg2"
        | (went) w lg2 a where "calls s' = calls s2 @ (AlertsUpdatePolicy a, None) # w"
          "logs s' = logs s2 @ lg2" "\<forall>ev \<in> set w. isStoreWrite (fst ev)"
        by blast
      then show ?thesis
      proof cases
        case failed
        have "?P (pre @ [(AlertsUpdatePolicy a, Some e)]) (lgp @ lg2)"
          using pre(3,4) True failed(1,4) by auto
        moreover have "calls s' = calls s @ (pre @ [(AlertsUpdatePolicy a, Some e)])"
          "logs s' = logs s @ (lgp @ lg2)"
          using failed(2,3) pre(1,2) by simp_all
        ultimately show ?thesis by (rule conclude[rotated 2])
      next
        case went
        have nw: "(AlertsCreatePolicy b, u) \<notin> set w" "(AlertsUpdatePolicy b, u) \<notin> set w"
          "(AlertsDeletePolicy i, u) \<notin> set w" "(AlertsListPolicies n, u) \<notin> set w"
          for b u i n
          using went(3) by fastforce+
        have "?P (pre @ (AlertsUpdatePolicy a, None) # w) (lgp @ lg2)"
          using pre(3,4) True by (auto simp: nw)
        moreover have "calls s' = calls s @ (pre @ (AlertsUpdatePolicy a, None) # w)"
          "logs s' = logs s @ (lgp @ lg2)"
          using went(1,2) pre(1,2) by simp_all
        ultimately show ?thesis by (rule conclude[rotated 2])
      qed
    next
      case zero: False
      obtain p2 where "createPolicy env p1 s2 = (r, p2, s')"
        using assms None False chk zero
        by (auto simp: Policy_reconcileFetched_def Let_def spec st split: prod.splits)
      from createPolicy_trace[OF this]
      consider (failed) e lg2 a where "r = Returned (Some e)"
          "calls s' = calls s2 @ [(AlertsCreatePolicy a, Some e)]" "logs s' = logs s2 @ lg2"
          "ErrorLog (Some e) ''failed to create policy via New Relic API'' \<in> set lg2"
        | (went) w lg2 a where "calls s' = calls s2 @ (AlertsCreatePolicy a, None) # w"
          "logs s' = logs s2 @ lg2" "\<forall>ev \<in> set w. isStoreWrite (fst ev)"
        by blast
      then show ?thesis
      proof cases
        case failed
        have "?P (pre @ [(AlertsCreatePolicy a, Some e)]) (lgp @ lg2)"
          using pre(3,4) failed(1,4) by auto
        moreover have "calls s' = calls s @ (pre @ [(AlertsCreatePolicy a, Some e)])"
          "logs s' = logs s @ (lgp @ lg2)"
          using failed(2,3) pre(1,2) by simp_all
        ultimately show ?thesis by (rule conclude[rotated 2])
      next
        case went
        have nw: "(AlertsCreatePolicy b, u) \<notin> set w" "(AlertsUpdatePolicy b, u) \<notin> set w"
          "(AlertsDeletePolicy i, u) \<notin> set w" "(AlertsListPolicies n, u) \<notin> set w"
          for b u i n
          using went(3) by fastforce+
        have "?P (pre @ (AlertsCreatePolicy a, None) # w) (lgp @ lg2)"
          using pre(3,4) by (auto simp: nw)
        moreover have "calls s' = calls s @ (pre @ (AlertsCreatePolicy a, None) # w)"
          "logs s' = logs s @ (lgp @ lg2)"
          using went(1,2) pre(1,2) by simp_all
        ultimately show ?thesis by (rule conclude[rotated 2])
      qed
    qed
  qed
qed

lemma quiet_prefix_facts:
  assumes "\<forall>ev \<in> set pre. \<not> isRemote (fst ev) \<and> \<not> isStoreWrite (fst ev)"
  shows "storeWrites pre = []" and "remoteCalls pre = []"
    and "(AlertsCreatePolicy a, u) \<notin> set pre" and "(AlertsUpdatePolicy a, u) \<notin> set pre"
    and "(AlertsDeletePolicy i, u) \<notin> set pre" and "(AlertsListPolicies n, u) \<notin> set pre"
    and "(AlertsCreateChannel b, u) \<notin> set pre" and "(K8sUpdatePolicy q, u) \<notin> set pre"
proof -
  show "storeWrites pre = []" "remoteCalls pre = []"
    using assms by (induction pre) auto
  show "(AlertsCreatePolicy a, u) \<notin> set pre" "(AlertsUpdatePolicy a, u) \<notin> set pre"
    "(AlertsDeletePolicy i, u) \<notin> set pre" "(AlertsListPolicies n, u) \<notin> set pre"
    "(AlertsCreateChannel b, u) \<notin> set pre" "(K8sUpdatePolicy q, u) \<notin> set pre"
    using assms by fastforce+
qed

lemma Policy_Reconcile_trace:
  assumes "Policy_Reconcile env req s = (r, s')"
  shows "\<exists>evs lg. calls s' = calls s @ evs \<and> logs s' = logs s @ lg \<and>
      (\<forall>a e. (AlertsCreatePolicy a, Some e) \<in> set evs \<longrightarrow>
         r = Returned (Some e) \<and> storeWrites evs = [] \<and>
         ErrorLog (Some e) ''failed to create policy via New Relic API'' \<in> set lg) \<and>
      (\<forall>a e. (AlertsUpdatePolicy a, Some e) \<in> set evs \<longrightarrow>
         r = Returned (Some e) \<and> storeWrites evs = [] \<and>
         ErrorLog (Some e) ''failed to update policy via New Relic API'' \<in> set lg) \<and>
      (\<forall>i e. (AlertsDeletePolicy i, Some e) \<in> set evs \<longrightarrow>
         r = Returned (Some e) \<and> (\<forall>q u. (K8sUpdatePolicy q, u) \<notin> set evs) \<and>
         ErrorLog (Some e) ''Failed to delete Alert Policy via New Relic API'' \<in> set lg) \<and>
      (\<forall>n e. (AlertsListPolicies n, Some e) \<in> set evs \<longrightarrow>
         ErrorLog (Some e) ''failed to get list of NRQL policys from New Relic API'' \<in> set lg \<and>
         (\<exists>a u. (AlertsCreatePolicy a, u) \<in> set evs))"
proof -
  from Policy_Reconcile_run[OF assms]
  consider (early) pre lg where "calls s' = calls s @ pre" "logs s' = logs s @ lg"
      "\<forall>ev \<in> set pre. \<not> isRemote (fst ev) \<and> \<not> isStoreWrite (fst ev)"
    | (run) p pre lg s4 where "calls s4 = calls s @ pre" "logs s4 = logs s @ lg"
      "\<forall>ev \<in> set pre. \<not> isRemote (fst ev) \<and> \<not> isStoreWrite (fst ev)"
      "Policy_reconcileFetched env p s4 = (r, s')"
    by blast
  then show ?thesis
  proof cases
    case early
    note q = quiet_prefix_facts[OF early(3)]
    show ?thesis
      by (rule exI[of _ pre], rule exI[of _ lg]) (simp add: early(1,2) q)
  next
    case run
    note q = quiet_prefix_facts[OF run(3)]
    from Policy_reconcileFetched_trace[OF run(4)] obtain evs lg2 where
      f: "calls s' = calls s4 @ evs" "logs s' = logs s4 @ lg2"
      and f1: "\<forall>a e. (AlertsCreatePolicy a, Some e) \<in> set evs \<longrightarrow>
         r = Returned (Some e) \<and> storeWrites evs = [] \<and>
         ErrorLog (Some e) ''failed to create policy via New Relic API'' \<in> set lg2"
      and f2: "\<forall>a e. (AlertsUpdatePolicy a, Some e) \<in> set evs \<longrightarrow>
         r = Returned (Some e) \<and> storeWrites evs = [] \<and>
         ErrorLog (Some e) ''failed to update policy via New Relic API'' \<in> set lg2"
      and f3: "\<forall>i e. (AlertsDeletePolicy i, Some e) \<in> set evs \<longrightarrow>
         r = Returned (Some e) \<and> (\<forall>q u. (K8sUpdatePolicy q, u) \<notin> set evs) \<and>
         ErrorLog (Some e) ''Failed to delete Alert Policy via New Relic API'' \<in> set lg2"
      and f4: "\<forall>n e. (AlertsListPolicies n, Some e) \<in> set evs \<longrightarrow>
         ErrorLog (Some e) ''failed to get list of NRQL policys from New Relic API'' \<in> set lg2 \<and>
         (\<exists>a u. (AlertsCreatePolicy a, u) \<in> set evs)"
      by blast
    have c: "calls s' = calls s @ (pre @ evs)" "logs s' = logs s @ (lg @ lg2)"
      using f run(1,2) by simp_all
    show ?thesis
      apply (rule exI[of _ "pre @ evs"], rule exI[of _ "lg @ lg2"])
      apply (intro conjI c)
      subgoal using f1 by (simp add: q)
      subgoal using f2 by (simp add: q)
      subgoal using f3 by (simp add: q)
      subgoal using f4 by (simp add: q)
      done
  qed
qed

section \<open>A failed remote create\<close>

lemma storedPolicy_no_writes: "storeWrites evs = [] \<Longrightarrow> storedPolicy p evs = p"
  by (induction p evs rule: storedPolicy.induct) (auto split: if_splits)

text \<open>
  C3. When an invocation of the policy reconciler issues the remote create and the
  create returns an error, the invocation returns that error and holds no store write
  at all: the stored policy, with its identifier and its applied specification, is what
  it was before.
\<close>

theorem create_error_preserves_state:
  "case Policy_Reconcile env req s of
     (r, s') \<Rightarrow>
       (\<forall>a e. (AlertsCreatePolicy a, Some e) \<in> set (issued s s') \<longrightarrow>
          r = Returned (Some e) \<and> storeWrites (issued s s') = [] \<and>
          storedPolicy stored (issued s s') = stored \<and>
          pst_PolicyID (p_Status (storedPolicy stored (issued s s'))) = pst_PolicyID (p_Status stored) \<and>
          pst_AppliedSpec (p_Status (storedPolicy stored (issued s s'))) =
            pst_AppliedSpec (p_Status stored))"
proof -
  obtain r s' where run: "Policy_Reconcile env req s = (r, s')"
    by (cases "Policy_Reconcile env req s")
  from Policy_Reconcile_trace[OF run] obtain evs lg where
    evs: "calls s' = calls s @ evs" "logs s' = logs s @ lg"
      "\<forall>a e. (AlertsCreatePolicy a, Some e) \<in> set evs \<longrightarrow>
         r = Returned (Some e) \<and> storeWrites evs = [] \<and>
         ErrorLog (Some e) ''failed to create policy via New Relic API'' \<in> set lg"
    by (elim exE conjE) (rule that)
  have "issued s s' = evs" using evs(1) by simp
  with evs(3) show ?thesis unfolding run
    by (auto simp: storedPolicy_no_writes)
qed

theorem create_error_preserves_state_witness:
  "Policy_Reconcile createFailsEnv testRequest emptyState =
     (Returned (Some (Error ''Any Error Goes Here'')),
      \<lparr>calls = [(K8sGetPolicy testRequest, None), (AlertClientFunc ''112233'' [], None),
                (AlertsListPolicies ''test policy'', None),
                (AlertsCreatePolicy
                   \<lparr>ap_ID = 0, ap_Name = ''test policy'', ap_IncidentPreference = ''PER_POLICY''\<rparr>,
                 Some (Error ''Any Error Goes Here''))],
       logs = [Info ''Starting reconcile action'', Info ''policy spec'', Info ''Reconciling'',
               Info ''Checking for existing policy'', Info ''Creating policy'',
               ErrorLog (Some (Error ''Any Error Goes Here''))
                 ''failed to create policy via New Relic API'']\<rparr>) \<and>
   storedPolicy testPolicy
     (issued emptyState (snd (Policy_Reconcile createFailsEnv testRequest emptyState))) = testPolicy \<and>
   pst_PolicyID (p_Status (storedPolicy testPolicy
     (issued emptyState (snd (Policy_Reconcile createFailsEnv testRequest emptyState))))) = 0"
  using create_error_preserves_state
      [where env = createFailsEnv and req = testRequest and s = emptyState and stored = testPolicy]
  by (simp add: createFailsEnv_def stubEnv_def testPolicy_def testCondition_def
      emptyState_def testRequest_def zeroPolicySpec_def
      Policy_Reconcile_def Policy_reconcileFetched_def Policy_getAPIKeyOrSecret_def
      checkForExistingPolicy_def createPolicy_def containsString_def Policy_deleteFinalizer_def
      call_defs effect_defs issued_def Let_def)

section \<open>Traces of the channel reconciler\<close>

lemma Channel_createOrUpdate_trace:
  assumes "Channel_createOrUpdate env c s = (r, s')"
  shows "\<exists>evs lg. calls s' = calls s @ evs \<and> logs s' = logs s @ lg \<and>
      (\<forall>ev \<in> set evs. (\<exists>a. fst ev = AlertsCreateChannel a) \<or>
                        (\<exists>q. fst ev = K8sUpdateAlertsChannel q)) \<and>
      (\<forall>a e. (AlertsCreateChannel a, Some e) \<in> set evs \<longrightarrow>
         r = Returned (Some e) \<and> evs = [(AlertsCreateChannel a, Some e)] \<and>
         ErrorLog (Some e) ''Error creating alertsChannel'' \<in> set lg)"
proof (cases "Some (ch_Spec c) = chst_AppliedSpec (ch_Status c) \<or> chst_ChannelID (ch_Status c) \<noteq> 0")
  case True
  with assms have "calls s' = calls s @ []" "\<exists>lg. logs s' = logs s @ lg"
    by (auto simp: Channel_createOrUpdate_def checkForExistingAlertsChannel_def
        updateAlertsChannel_def Let_def split: if_splits)
  then show ?thesis by fastforce
next
  case False
  let ?a = "env_APIChannel env (ch_Spec c)"
  let ?s1 = "logInfo ''Creating AlertsChannel'' (logInfo ''Reconciling'' s)"
  show ?thesis
  proof (cases "env_CreateChannel env (calls s) ?a")
    case (Inl e)
    with assms False have "calls s' = calls s @ [(AlertsCreateChannel ?a, Some e)]"
      "logs s' = logs s @ [Info ''Reconciling'', Info ''Creating AlertsChannel'',
         ErrorLog (Some e) (''error creating AlertsChannel'' @ ch_Name c),
         ErrorLog (Some e) ''Error creating alertsChannel'']"
      "r = Returned (Some e)"
      by (auto simp: Channel_createOrUpdate_def checkForExistingAlertsChannel_def
          createAlertsChannel_def alertsCreateChannel_def Let_def)
    then show ?thesis by fastforce
  next
    case (Inr created)
    with assms False have "\<exists>q u. calls s' = calls s @ [(AlertsCreateChannel ?a, None),
        (K8sUpdateAlertsChannel q, u)]" "\<exists>lg. logs s' = logs s @ lg"
      by (auto simp: Channel_createOrUpdate_def checkForExistingAlertsChannel_def
          createAlertsChannel_def alertsCreateChannel_def k8sUpdateAlertsChannel_def Let_def
          split: option.splits)
    then show ?thesis by fastforce
  qed
qed

lemma deleteAlertsChannel_effect:
  assumes "deleteAlertsChannel env c fin s = (r, c', s')"
  shows "\<exists>evs lg. calls s' = calls s @ evs \<and> logs s' = logs s @ lg \<and>
      (\<forall>ev \<in> set evs. (\<exists>i. fst ev = AlertsDeleteChannel i) \<or>
                        (\<exists>q. fst ev = K8sUpdateAlertsChannel q))"
  using assms
  by (auto simp: deleteAlertsChannel_def alertsDeleteChannel_def k8sUpdateAlertsChannel_def
      Let_def split: option.splits if_splits)

lemma Channel_reconcileFetched_run:
  assumes "Channel_reconcileFetched env c s = (r, s')"
  shows "(\<exists>pre lg. calls s' = calls s @ pre \<and> logs s' = logs s @ lg \<and>
            (\<forall>ev \<in> set pre. \<forall>a. fst ev \<noteq> AlertsCreateChannel a)) \<or>
         (\<exists>c1 pre lg s4. calls s4 = calls s @ pre \<and> logs s4 = logs s @ lg \<and>
            (\<forall>ev \<in> set pre. \<forall>a. fst ev \<noteq> AlertsCreateChannel a) \<and>
            Channel_createOrUpdate env c1 s4 = (r, s'))"
proof (cases "ch_DeletionTimestamp c")
  case None
  with assms have "\<exists>c1. Channel_createOrUpdate env c1 s = (r, s')"
    by (auto simp: Channel_reconcileFetched_def)
  then obtain c1 where "calls s = calls s @ []" "logs s = logs s @ []"
    "\<forall>ev \<in> set ([] :: event list). \<forall>a. fst ev \<noteq> AlertsCreateChannel a"
    "Channel_createOrUpdate env c1 s = (r, s')" by auto
  then show ?thesis by blast
next
  case (Some ts)
  obtain rd c1 s1 where d: "deleteAlertsChannel env c Channel_deleteFinalizer s = (rd, c1, s1)"
    by (cases "deleteAlertsChannel env c Channel_deleteFinalizer s")
  from deleteAlertsChannel_effect[OF d] obtain pre lg where
    e: "calls s1 = calls s @ pre" "logs s1 = logs s @ lg"
      "\<forall>ev \<in> set pre. (\<exists>i. fst ev = AlertsDeleteChannel i) \<or>
                        (\<exists>q. fst ev = K8sUpdateAlertsChannel q)" by blast
  have q: "\<forall>ev \<in> set pre. \<forall>a. fst ev \<noteq> AlertsCreateChannel a" using e(3) by fastforce
  show ?thesis
  proof (cases rd)
    case None
    with assms Some d have "Channel_createOrUpdate env c1 s1 = (r, s')"
      by (simp add: Channel_reconcileFetched_def)
    with e(1,2) q show ?thesis by blast
  next
    case (Some err)
    with assms \<open>ch_DeletionTimestamp c = Some ts\<close> d
    have "s' = logError (Some err) ''error deleting channel'' s1"
      by (simp add: Channel_reconcileFetched_def)
    then have "calls s' = calls s @ pre" "logs s' = logs s @ (lg @ [ErrorLog (Some err) ''error deleting channel''])"
      using e(1,2) by simp_all
    with q show ?thesis by blast
  qed
qed

lemma Channel_Reconcile_run:
  assumes "Channel_Reconcile env req s = (r, s')"
  shows "(\<exists>pre lg. calls s' = calls s @ pre \<and> logs s' = logs s @ lg \<and>
            (\<forall>ev \<in> set pre. \<forall>a. fst ev \<noteq> AlertsCreateChannel a)) \<or>
         (\<exists>c1 pre lg s4. calls s4 = calls s @ pre \<and> logs s4 = logs s @ lg \<and>
            (\<forall>ev \<in> set pre. \<forall>a. fst ev \<noteq> AlertsCreateChannel a) \<and>
            Channel_createOrUpdate env c1 s4 = (r, s'))"
proof (cases "env_GetAlertsChannel env (calls s) req")
  case (Inl e)
  with assms have "calls s' = calls s @ [(K8sGetAlertsChannel req, Some e)]"
    "\<exists>lg. logs s' = logs s @ lg"
    by (auto simp: Channel_Reconcile_def k8sGetAlertsChannel_def Let_def split: if_splits)
  then show ?thesis by fastforce
next
  case (Inr c)
  let ?s2 = "logInfo ''alertsChannel'' (logInfo ''Starting reconcile action''
              (emit (K8sGetAlertsChannel req) None s))"
  obtain k s3 where key: "Channel_getAPIKeyOrSecret env c ?s2 = (k, s3)"
    by (cases "Channel_getAPIKeyOrSecret env c ?s2")
  from Channel_getAPIKeyOrSecret_effect[OF key] obtain evs lg where
    e: "calls s3 = calls ?s2 @ evs" "logs s3 = logs ?s2 @ lg"
      "\<forall>ev \<in> set evs. \<exists>key. fst ev = K8sGetSecret key" by blast
  have c3: "calls s3 = calls s @ ((K8sGetAlertsChannel req, None) # evs)" using e(1) by simp
  have l3: "logs s3 = logs s @ ([Info ''Starting reconcile action'', Info ''alertsChannel''] @ lg)"
    using e(2) by simp
  have q3: "\<forall>ev \<in> set ((K8sGetAlertsChannel req, None) # evs).
              \<forall>a. fst ev \<noteq> AlertsCreateChannel a"
    using e(3) by auto
  show ?thesis
  proof (cases "k = []")
    case True
    with assms Inr key have "s' = s3"
      by (simp add: Channel_Reconcile_def k8sGetAlertsChannel_def)
    with c3 l3 q3 show ?thesis by blast
  next
    case False
    let ?u = "env_AlertClientFunc env (calls s3) k (chs_Region (ch_Spec c))"
    let ?s4 = "emit (AlertClientFunc k (chs_Region (ch_Spec c))) ?u s3"
    let ?pre = "(K8sGetAlertsChannel req, None) # evs @
                [(AlertClientFunc k (chs_Region (ch_Spec c)), ?u)]"
    let ?lg = "[Info ''Starting reconcile action'', Info ''alertsChannel''] @ lg"
    have c4: "calls ?s4 = calls s @ ?pre" using c3 by simp
    have l4: "logs ?s4 = logs s @ ?lg" using l3 by simp
    have q4: "\<forall>ev \<in> set ?pre. \<forall>a. fst ev \<noteq> AlertsCreateChannel a"
      using e(3) by auto
    show ?thesis
    proof (cases ?u)
      case (Some err)
      with assms Inr key False
      have "s' = logError (Some err) ''Failed to create AlertsClient'' ?s4"
        by (simp add: Channel_Reconcile_def k8sGetAlertsChannel_def newAlertsClient_def Let_def)
      then have "calls s' = calls ?s4" "logs s' = logs s @
          (?lg @ [ErrorLog (Some err) ''Failed to create AlertsClient''])"
        using l4 by simp_all
      with c4 q4 show ?thesis by metis
    next
      case None
      with assms Inr key False have f: "Channel_reconcileFetched env c ?s4 = (r, s')"
        by (simp add: Channel_Reconcile_def k8sGetAlertsChannel_def newAlertsClient_def Let_def)
      from Channel_reconcileFetched_run[OF f]
      consider (early) pre2 lg2 where "calls s' = calls ?s4 @ pre2" "logs s' = logs ?s4 @ lg2"
          "\<forall>ev \<in> set pre2. \<forall>a. fst ev \<noteq> AlertsCreateChannel a"
        | (run) c1 pre2 lg2 s5 where "calls s5 = calls ?s4 @ pre2" "logs s5 = logs ?s4 @ lg2"
          "\<forall>ev \<in> set pre2. \<forall>a. fst ev \<noteq> AlertsCreateChannel a"
          "Channel_createOrUpdate env c1 s5 = (r, s')"
        by blast
      then show ?thesis
      proof cases
        case early
        have "calls s' = calls s @ (?pre @ pre2)" "logs s' = logs s @ (?lg @ lg2)"
          using early(1,2) c4 l4 by simp_all
        moreover have "\<forall>ev \<in> set (?pre @ pre2). \<forall>a. fst ev \<noteq> AlertsCreateChannel a"
          using q4 early(3) by auto
        ultimately show ?thesis by blast
      next
        case run
        have "calls s5 = calls s @ (?pre @ pre2)" "logs s5 = logs s @ (?lg @ lg2)"
          using run(1,2) c4 l4 by simp_all
        moreover have "\<forall>ev \<in> set (?pre @ pre2). \<forall>a. fst ev \<noteq> AlertsCreateChannel a"
          using q4 run(3) by auto
        ultimately show ?thesis using run(4) by blast
      qed
    qed
  qed
qed

lemma Channel_Reconcile_trace:
  assumes "Channel_Reconcile env req s = (r, s')"
  shows "\<exists>evs lg. calls s' = calls s @ evs \<and> logs s' = logs s @ lg \<and>
      (\<forall>a e. (AlertsCreateChannel a, Some e) \<in> set evs \<longrightarrow>
         r = Returned (Some e) \<and> last evs = (AlertsCreateChannel a, Some e) \<and>
         ErrorLog (Some e) ''Error creating alertsChannel'' \<in> set lg)"
proof -
  from Channel_Reconcile_run[OF assms]
  consider (early) pre lg where "calls s' = calls s @ pre" "logs s' = logs s @ lg"
      "\<forall>ev \<in> set pre. \<forall>a. fst ev \<noteq> AlertsCreateChannel a"
    | (run) c1 pre lg s4 where "calls s4 = calls s @ pre" "logs s4 = logs s @ lg"
      "\<forall>ev \<in> set pre. \<forall>a. fst ev \<noteq> AlertsCreateChannel a"
      "Channel_createOrUpdate env c1 s4 = (r, s')"
    by blast
  then show ?thesis
  proof cases
    case early
    have "(AlertsCreateChannel a, u) \<notin> set pre" for a u using early(3) by fastforce
    then show ?thesis
      by (intro exI[of _ pre] exI[of _ lg]) (simp add: early(1,2))
  next
    case run
    have n: "(AlertsCreateChannel a, u) \<notin> set pre" for a u using run(3) by fastforce
    from Channel_createOrUpdate_trace[OF run(4)] obtain evs lg2 where
      f: "calls s' = calls s4 @ evs" "logs s' = logs s4 @ lg2"
        "\<forall>ev \<in> set evs. (\<exists>a. fst ev = AlertsCreateChannel a) \<or>
                        (\<exists>q. fst ev = K8sUpdateAlertsChannel q)"
        "\<forall>a e. (AlertsCreateChannel a, Some e) \<in> set evs \<longrightarrow>
           r = Returned (Some e) \<and> evs = [(AlertsCreateChannel a, Some e)] \<and>
           ErrorLog (Some e) ''Error creating alertsChannel'' \<in> set lg2"
      by blast
    have "calls s' = calls s @ (pre @ evs)" "logs s' = logs s @ (lg @ lg2)"
      using f(1,2) run(1,2) by simp_all
    moreover have "\<forall>a e. (AlertsCreateChannel a, Some e) \<in> set (pre @ evs) \<longrightarrow>
         r = Returned (Some e) \<and> last (pre @ evs) = (AlertsCreateChannel a, Some e) \<and>
         ErrorLog (Some e) ''Error creating alertsChannel'' \<in> set (lg @ lg2)"
    proof (intro allI impI)
      fix a e assume "(AlertsCreateChannel a, Some e) \<in> set (pre @ evs)"
      with n have m: "(AlertsCreateChannel a, Some e) \<in> set evs" by simp
      with f(4) have "r = Returned (Some e)" "evs = [(AlertsCreateChannel a, Some e)]"
        "ErrorLog (Some e) ''Error creating alertsChannel'' \<in> set lg2" by blast+
      then show "r = Returned (Some e) \<and> last (pre @ evs) = (AlertsCreateChannel a, Some e) \<and>
         ErrorLog (Some e) ''Error creating alertsChannel'' \<in> set (lg @ lg2)" by simp
    qed
    ultimately show ?thesis by blast
  qed
qed

section \<open>Failures of remote calls\<close>

text \<open>
  C7, as amended. A failed remote create, update or delete of a policy, and a failed
  remote create of a channel, is logged with its error and is the error the invocation
  returns; after a failed create or update of a policy the invocation holds no store
  write, after a failed delete of a policy no write of the policy, and a failed create
  of a channel is the last event of its invocation. A failed list of policies is
  logged and not returned: the invocation goes on to the remote create.
\<close>

theorem remote_mutation_failure_is_returned:
  "(case Policy_Reconcile env req s of
      (r, s') \<Rightarrow>
        (\<forall>a e. (AlertsCreatePolicy a, Some e) \<in> set (issued s s') \<longrightarrow>
           r = Returned (Some e) \<and> storeWrites (issued s s') = [] \<and>
           ErrorLog (Some e) ''failed to create policy via New Relic API'' \<in> set (logged s s')) \<and>
        (\<forall>a e. (AlertsUpdatePolicy a, Some e) \<in> set (issued s s') \<longrightarrow>
           r = Returned (Some e) \<and> storeWrites (issued s s') = [] \<and>
           ErrorLog (Some e) ''failed to update policy via New Relic API'' \<in> set (logged s s')) \<and>
        (\<forall>i e. (AlertsDeletePolicy i, Some e) \<in> set (issued s s') \<longrightarrow>
           r = Returned (Some e) \<and> (\<forall>q u. (K8sUpdatePolicy q, u) \<notin> set (issued s s')) \<and>
           ErrorLog (Some e) ''Failed to delete Alert Policy via New Relic API''
             \<in> set (logged s s')) \<and>
        (\<forall>n e. (AlertsListPolicies n, Some e) \<in> set (issued s s') \<longrightarrow>
           ErrorLog (Some e) ''failed to get list of NRQL policys from New Relic API''
             \<in> set (logged s s') \<and>
           (\<exists>a u. (AlertsCreatePolicy a, u) \<in> set (issued s s')))) \<and>
   (case Channel_Reconcile env req s of
      (r, s') \<Rightarrow>
        (\<forall>a e. (AlertsCreateChannel a, Some e) \<in> set (issued s s') \<longrightarrow>
           r = Returned (Some e) \<and> last (issued s s') = (AlertsCreateChannel a, Some e) \<and>
           ErrorLog (Some e) ''Error creating alertsChannel'' \<in> set (logged s s')))"
proof (rule conjI)
  obtain r s' where run: "Policy_Reconcile env req s = (r, s')"
    by (cases "Policy_Reconcile env req s")
  from Policy_Reconcile_trace[OF run] obtain evs lg where
    t: "calls s' = calls s @ evs" "logs s' = logs s @ lg"
    and f: "(\<forall>a e. (AlertsCreatePolicy a, Some e) \<in> set evs \<longrightarrow>
         r = Returned (Some e) \<and> storeWrites evs = [] \<and>
         ErrorLog (Some e) ''failed to create policy via New Relic API'' \<in> set lg) \<and>
      (\<forall>a e. (AlertsUpdatePolicy a, Some e) \<in> set evs \<longrightarrow>
         r = Returned (Some e) \<and> storeWrites evs = [] \<and>
         ErrorLog (Some e) ''failed to update policy via New Relic API'' \<in> set lg) \<and>
      (\<forall>i e. (AlertsDeletePolicy i, Some e) \<in> set evs \<longrightarrow>
         r = Returned (Some e) \<and> (\<forall>q u. (K8sUpdatePolicy q, u) \<notin> set evs) \<and>
         ErrorLog (Some e) ''Failed to delete Alert Policy via New Relic API'' \<in> set lg) \<and>
      (\<forall>n e. (AlertsListPolicies n, Some e) \<in> set evs \<longrightarrow>
         ErrorLog (Some e) ''failed to get list of NRQL policys from New Relic API'' \<in> set lg \<and>
         (\<exists>a u. (AlertsCreatePolicy a, u) \<in> set evs))"
    by (elim exE conjE) (rule that, assumption, assumption, intro conjI)
  have "issued s s' = evs" "logged s s' = lg" using t by simp_all
  with f show "case Policy_Reconcile env req s of
      (r, s') \<Rightarrow>
        (\<forall>a e. (AlertsCreatePolicy a, Some e) \<in> set (issued s s') \<longrightarrow>
           r = Returned (Some e) \<and> storeWrites (issued s s') = [] \<and>
           ErrorLog (Some e) ''failed to create policy via New Relic API'' \<in> set (logged s s')) \<and>
        (\<forall>a e. (AlertsUpdatePolicy a, Some e) \<in> set (issued s s') \<longrightarrow>
           r = Returned (Some e) \<and> storeWrites (issued s s') = [] \<and>
           ErrorLog (Some e) ''failed to update policy via New Relic API'' \<in> set (logged s s')) \<and>
        (\<forall>i e. (AlertsDeletePolicy i, Some e) \<in> set (issued s s') \<longrightarrow>
           r = Returned (Some e) \<and> (\<forall>q u. (K8sUpdatePolicy q, u) \<notin> set (issued s s')) \<and>
           ErrorLog (Some e) ''Failed to delete Alert Policy via New Relic API''
             \<in> set (logged s s')) \<and>
        (\<forall>n e. (AlertsListPolicies n, Some e) \<in> set (issued s s') \<longrightarrow>
           ErrorLog (Some e) ''failed to get list of NRQL policys from New Relic API''
             \<in> set (logged s s') \<and>
           (\<exists>a u. (AlertsCreatePolicy a, u) \<in> set (issued s s')))"
    unfolding run by simp
next
  obtain r s' where run: "Channel_Reconcile env req s = (r, s')"
    by (cases "Channel_Reconcile env req s")
  from Channel_Reconcile_trace[OF run] obtain evs lg where
    t: "calls s' = calls s @ evs" "logs s' = logs s @ lg"
    and f: "\<forall>a e. (AlertsCreateChannel a, Some e) \<in> set evs \<longrightarrow>
         r = Returned (Some e) \<and> last evs = (AlertsCreateChannel a, Some e) \<and>
         ErrorLog (Some e) ''Error creating alertsChannel'' \<in> set lg"
    by blast
  have "issued s s' = evs" "logged s s' = lg" using t by simp_all
  with f show "case Channel_Reconcile env req s of
      (r, s') \<Rightarrow>
        (\<forall>a e. (AlertsCreateChannel a, Some e) \<in> set (issued s s') \<longrightarrow>
           r = Returned (Some e) \<and> last (issued s s') = (AlertsCreateChannel a, Some e) \<and>
           ErrorLog (Some e) ''Error creating alertsChannel'' \<in> set (logged s s'))"
    unfolding run by simp
qed

theorem remote_mutation_failure_is_returned_witness:
  "(AlertsCreatePolicy
      \<lparr>ap_ID = 0, ap_Name = ''test policy'', ap_IncidentPreference = ''PER_POLICY''\<rparr>,
    Some (Error ''Any Error Goes Here''))
     \<in> set (issued emptyState (snd (Policy_Reconcile createFailsEnv testRequest emptyState))) \<and>
   fst (Policy_Reconcile createFailsEnv testRequest emptyState) =
     Returned (Some (Error ''Any Error Goes Here'')) \<and>
   (AlertsUpdatePolicy
      \<lparr>ap_ID = 333, ap_Name = ''test policy'',
       ap_IncidentPreference = ''PER_CONDITION_AND_TARGET''\<rparr>,
    Some (Error ''oh no''))
     \<in> set (issued emptyState (snd (Policy_Reconcile updateFailsEnv testRequest emptyState))) \<and>
   fst (Policy_Reconcile updateFailsEnv testRequest emptyState) =
     Returned (Some (Error ''oh no'')) \<and>
   (AlertsDeletePolicy 333, Some (Error ''Imaginary 404 Failure''))
     \<in> set (issued emptyState (snd (Policy_Reconcile deleteFailsEnv testRequest emptyState))) \<and>
   fst (Policy_Reconcile deleteFailsEnv testRequest emptyState) =
     Returned (Some (Error ''Imaginary 404 Failure'')) \<and>
   (AlertsListPolicies ''test policy'', Some (Error ''503 Service Unavailable''))
     \<in> set (issued emptyState (snd (Policy_Reconcile listFailsEnv testRequest emptyState))) \<and>
   ErrorLog (Some (Error ''503 Service Unavailable''))
       ''failed to get list of NRQL policys from New Relic API''
     \<in> set (logged emptyState (snd (Policy_Reconcile listFailsEnv testRequest emptyState))) \<and>
   (AlertsCreateChannel \<lparr>ac_ID = 0, ac_Name = ''my alert channel'', ac_Body = ''email''\<rparr>,
    Some (Error ''Any Error Goes Here''))
     \<in> set (issued emptyState
               (snd (Channel_Reconcile channelCreateFailsEnv testRequest emptyState))) \<and>
   fst (Channel_Reconcile channelCreateFailsEnv testRequest emptyState) =
     Returned (Some (Error ''Any Error Goes Here''))"
  using remote_mutation_failure_is_returned
      [where env = createFailsEnv and req = testRequest and s = emptyState]
    remote_mutation_failure_is_returned
      [where env = updateFailsEnv and req = testRequest and s = emptyState]
    remote_mutation_failure_is_returned
      [where env = deleteFailsEnv and req = testRequest and s = emptyState]
    remote_mutation_failure_is_returned
      [where env = listFailsEnv and req = testRequest and s = emptyState]
    remote_mutation_failure_is_returned
      [where env = channelCreateFailsEnv and req = testRequest and s = emptyState]
  by (simp add: model_defs fixture_defs createFailsEnv_def changedPolicy_def
      convergedPolicy_def updateFailsEnv_def deleteFailsEnv_def deletingPolicy_def condA_def
      condB_def listFailsEnv_def channelCreateFailsEnv_def call_defs effect_defs issued_def
      logged_def Let_def)

text \<open>
  C7 as stated fails: when the list of policies fails and every later call succeeds,
  the failure is logged and the invocation goes on to create the policy and returns
  \<open>nil\<close>.
\<close>

theorem list_failure_swallowed_counterexample:
  "(AlertsListPolicies ''test policy'', Some (Error ''503 Service Unavailable''))
     \<in> set (calls (snd (Policy_Reconcile listFailsEnv testRequest emptyState))) \<and>
   fst (Policy_Reconcile listFailsEnv testRequest emptyState) = Returned None"
  by (simp add: model_defs fixture_defs listFailsEnv_def call_defs effect_defs Let_def)

section \<open>Discovery of an existing remote policy\<close>







section \<open>Where the code departs from the specification\<close>

text \<open>
  C2. A new policy with two declared conditions, neither carrying a version token.
  The invocation succeeds, yet it creates the first condition only: the second is
  never handled, and it is written back to the store as declared, without a version
  token.
\<close>

theorem second_condition_never_handled:
  "map c_ResourceVersion (ps_Conditions (p_Spec twoConditionPolicy)) = [[], []] \<and>
   fst (Policy_Reconcile (stubEnv\<lparr>env_GetPolicy := \<lambda>_ _. Inr twoConditionPolicy\<rparr>)
          testRequest emptyState) = Returned None \<and>
   map (\<lambda>c. cs_Name (c_Spec c))
     (createdConditions
        (calls (snd (Policy_Reconcile (stubEnv\<lparr>env_GetPolicy := \<lambda>_ _. Inr twoConditionPolicy\<rparr>)
                       testRequest emptyState)))) = [''NRQL Condition''] \<and>
   length (storeWrites
     (calls (snd (Policy_Reconcile (stubEnv\<lparr>env_GetPolicy := \<lambda>_ _. Inr twoConditionPolicy\<rparr>)
                    testRequest emptyState)))) = 2 \<and>
   map c_ResourceVersion
     (ps_Conditions (p_Spec (storedPolicy twoConditionPolicy
        (calls (snd (Policy_Reconcile (stubEnv\<lparr>env_GetPolicy := \<lambda>_ _. Inr twoConditionPolicy\<rparr>)
                       testRequest emptyState)))))) = [''1'', []]"
  by (simp add: model_defs fixture_defs twoConditionPolicy_def secondCondition_def call_defs
      effect_defs Let_def)

text \<open>
  C5. A channel with a remote identifier whose specification differs from the applied
  one. The invocation succeeds with no remote call and no store write: nothing is
  updated remotely and the new specification is not recorded as applied.
\<close>

theorem channel_update_does_nothing:
  "chst_ChannelID (ch_Status changedChannel) \<noteq> 0 \<and>
   Some (ch_Spec changedChannel) \<noteq> chst_AppliedSpec (ch_Status changedChannel) \<and>
   ch_DeletionTimestamp changedChannel = None \<and>
   Channel_Reconcile (stubEnv\<lparr>env_GetAlertsChannel := \<lambda>_ _. Inr changedChannel\<rparr>)
     testRequest emptyState =
     (Returned None,
      \<lparr>calls = [(K8sGetAlertsChannel testRequest, None), (AlertClientFunc ''112233'' ''US'', None)],
       logs = [Info ''Starting reconcile action'', Info ''alertsChannel'', Info ''Reconciling'']\<rparr>)"
  by (simp add: model_defs fixture_defs changedChannel_def convergedChannel_def call_defs
      effect_defs Let_def)

text \<open>
  C6. A policy under deletion with the finalizer present and no remote identifier.
  \<open>deletePolicy\<close> strips the finalizer from the object in memory and returns \<open>nil\<close>,
  but the invocation holds no store write: the stored policy keeps its finalizer.
\<close>

theorem finalizer_removal_not_persisted:
  "p_DeletionTimestamp neverCreatedPolicy \<noteq> None \<and>
   containsString (p_Finalizers neverCreatedPolicy) Policy_deleteFinalizer \<and>
   pst_PolicyID (p_Status neverCreatedPolicy) = 0 \<and>
   deletePolicy stubEnv neverCreatedPolicy Policy_deleteFinalizer emptyState =
     (Returned None, neverCreatedPolicy\<lparr>p_Finalizers := []\<rparr>,
      \<lparr>calls = [],
       logs = [Info ''No Condition ID set, just removing finalizer'',
               Info ''All done with policy deletion'']\<rparr>) \<and>
   Policy_Reconcile (stubEnv\<lparr>env_GetPolicy := \<lambda>_ _. Inr neverCreatedPolicy\<rparr>)
     testRequest emptyState =
     (Returned None,
      \<lparr>calls = [(K8sGetPolicy testRequest, None), (AlertClientFunc ''112233'' [], None)],
       logs = [Info ''Starting reconcile action'', Info ''policy spec'',
               Info ''No Condition ID set, just removing finalizer'',
               Info ''All done with policy deletion'']\<rparr>) \<and>
   p_Finalizers (storedPolicy neverCreatedPolicy
     (calls (snd (Policy_Reconcile (stubEnv\<lparr>env_GetPolicy := \<lambda>_ _. Inr neverCreatedPolicy\<rparr>)
                    testRequest emptyState)))) = [Policy_deleteFinalizer]"
  by (simp add: model_defs fixture_defs neverCreatedPolicy_def call_defs effect_defs Let_def)

end
